theory Spec2Isabelle
  imports Main "HOL-Library.AList"
begin

section \<open>Values, keys and dictionaries\<close>

text \<open>
  The two modules \<^verbatim>\<open>bridge.py\<close> and \<^verbatim>\<open>config_flow.py\<close> import their constants from
  \<^verbatim>\<open>homeassistant.const\<close> and from \<^verbatim>\<open>.const\<close>; neither is part of the sources.
  Names that are only used as dictionary keys, category tags or result codes
  (\<^verbatim>\<open>CONF_*\<close>, \<^verbatim>\<open>SENSORS_TYPE_*\<close>, \<^verbatim>\<open>RESULT_*\<close>) are kept symbolic, one
  constructor per name. Names that hold data (defaults, sensor lists, set-up parameters)
  are fields of the record \<open>constants\<close> below, which every function that reads them
  takes as its first argument.
\<close>

datatype conf_key =
    CONF_NAME | CONF_HOST | CONF_PASSWORD | CONF_USERNAME | CONF_PORT
  | CONF_SCAN_INTERVAL | CONF_SSL | CONF_VERIFY_SSL
  | CONF_CACHE_TIME | CONF_CERT_PATH | CONF_CONFIRM | CONF_CONSIDER_HOME
  | CONF_ENABLE_CONTROL | CONF_ENABLE_MONITOR | CONF_INTERFACES
  | Key string

datatype sensors_type =
    SENSORS_TYPE_CPU | SENSORS_TYPE_RAM | SENSORS_TYPE_NETWORK_STAT
  | SENSORS_TYPE_MISC | SENSORS_TYPE_PORTS | SENSORS_TYPE_WAN

text \<open>
  The value of an entry of a form's \<^verbatim>\<open>errors\<close> dictionary: one of the result codes, or
  a string written out in the source.
\<close>

datatype result_code =
    RESULT_CONNECTION_REFUSED | RESULT_ERROR | RESULT_LOGIN_BLOCKED | RESULT_SUCCESS
  | RESULT_UNKNOWN | RESULT_WRONG_CREDENTIALS
  | Text string

datatype val = VNone | VBool bool | VInt int | VStr string | VList "string list"

text \<open>Python truthiness of a value, as tested by \<^verbatim>\<open>if x:\<close>.\<close>

fun truthy :: "val \<Rightarrow> bool" where
  "truthy VNone = False"
| "truthy (VBool b) = b"
| "truthy (VInt i) = (i \<noteq> 0)"
| "truthy (VStr s) = (s \<noteq> [])"
| "truthy (VList l) = (l \<noteq> [])"

text \<open>
  A dictionary is an association list in insertion order. \<open>AList.update\<close> replaces the
  value of a key that is present and appends a new key at the end, as an assignment
  \<^verbatim>\<open>d[k] = v\<close> does.
\<close>

type_synonym ('k, 'v) dict = "('k \<times> 'v) list"
type_synonym config = "(conf_key, val) dict"

definition dict_in :: "'k \<Rightarrow> ('k, 'v) dict \<Rightarrow> bool" where
  "dict_in k d = (k \<in> set (map fst d))"

definition dict_get :: "('k, 'v) dict \<Rightarrow> 'k \<Rightarrow> 'v \<Rightarrow> 'v" where
  "dict_get d k dflt = (case map_of d k of None \<Rightarrow> dflt | Some v \<Rightarrow> v)"

fun dict_update :: "('k, 'v) dict \<Rightarrow> ('k, 'v) dict \<Rightarrow> ('k, 'v) dict" where
  "dict_update d [] = d"
| "dict_update d ((k, v) # rest) = dict_update (AList.update k v d) rest"

section \<open>Exceptions, the router SDK and the world\<close>

text \<open>
  Instances of \<^verbatim>\<open>Exception\<close>. A constructor stands for a class together with those of
  its subclasses that no other constructor names; the three SDK errors that
  \<^verbatim>\<open>config_flow.py\<close> catches by name are siblings below \<^verbatim>\<open>AsusRouterError\<close>.
  \<^verbatim>\<open>AsusRouterValueError\<close> derives from both \<^verbatim>\<open>AsusRouterError\<close> and
  \<^verbatim>\<open>ValueError\<close>; \<^verbatim>\<open>gaierror\<close> is a subclass of \<^verbatim>\<open>OSError\<close>. Signals that derive from
  \<^verbatim>\<open>BaseException\<close> only (cancellation, interpreter exit) are outside the model.
\<close>

datatype exc =
    AsusRouterError string
  | AsusRouterLoginError
  | AsusRouterLoginBlockError nat
  | AsusRouterConnectionError string
  | AsusRouterValueError string
  | ConfigEntryNotReady exc
  | UpdateFailed exc
  | OSError string
  | Gaierror
  | ValueError string
  | KeyError
  | TypeError
  | AttributeError
  | ImportError
  | Exception string

fun is_AsusRouterError :: "exc \<Rightarrow> bool" where
  "is_AsusRouterError (AsusRouterError m) = True"
| "is_AsusRouterError AsusRouterLoginError = True"
| "is_AsusRouterError (AsusRouterLoginBlockError t) = True"
| "is_AsusRouterError (AsusRouterConnectionError m) = True"
| "is_AsusRouterError (AsusRouterValueError m) = True"
| "is_AsusRouterError e = False"

fun is_OSError :: "exc \<Rightarrow> bool" where
  "is_OSError (OSError m) = True"
| "is_OSError Gaierror = True"
| "is_OSError e = False"

fun is_ValueError :: "exc \<Rightarrow> bool" where
  "is_ValueError (ValueError m) = True"
| "is_ValueError (AsusRouterValueError m) = True"
| "is_ValueError e = False"

text \<open>The SDK's \<^verbatim>\<open>AsusDevice\<close>, with the attributes the bridge reads.\<close>

record identity =
  serial :: "string option"
  mac :: "string option"
  model :: "string option"
  brand :: "string option"

text \<open>
  Port data as \<^verbatim>\<open>AsusRouter.async_get_ports\<close> returns it: for each port type the
  ports with their values. A port is identified by the text that \<^verbatim>\<open>str.format\<close>
  renders for it.
\<close>

type_synonym ports_raw = "(string, (string, int) dict) dict"

text \<open>
  What the router answers to each SDK call of one invocation: the exception it raises,
  or the value it returns. \<open>gethostbyname\<close> is the resolver of the \<^verbatim>\<open>socket\<close> module.
\<close>

record sdk =
  api_async_connect :: "exc option"
  api_async_get_identity :: "exc + identity"
  api_async_cleanup :: "exc option"
  api_async_disconnect :: "exc option"
  api_async_get_cpu_labels :: "exc + string list"
  api_async_get_network_labels :: "exc + string list"
  api_async_get_ports :: "exc + ports_raw"
  gethostbyname :: "val \<Rightarrow> exc + string"

datatype level = DEBUG | WARNING | ERROR

datatype arg = AStr string | AVal val | AExc exc | AExcType exc | ANames "string list"

datatype api_call =
    New_AsusRouter | Connect | Get_identity | Cleanup | Disconnect
  | Get_cpu_labels | Get_network_labels | Get_ports

text \<open>
  An event is a record written to \<^verbatim>\<open>_LOGGER\<close> (level, format string, arguments) or a
  call into the SDK.
\<close>

datatype event = Log level string "arg list" | Api api_call

text \<open>
  The world: the store of dictionary objects (an address is an index into \<open>heap\<close>),
  the events so far, and the one dictionary object that is the default value of the
  parameter \<^verbatim>\<open>errors\<close> of \<^verbatim>\<open>ASUSRouterFlowHandler.async_step_device\<close>, created
  once when the method is defined.
\<close>

record world =
  heap :: "config list"
  trace :: "event list"
  device_errors_default :: "(string, result_code) dict"

definition emit :: "event \<Rightarrow> world \<Rightarrow> world" where
  "emit e w = w\<lparr>trace := trace w @ [e]\<rparr>"

definition deref :: "world \<Rightarrow> nat \<Rightarrow> config" where
  "deref w a = heap w ! a"

definition alloc :: "config \<Rightarrow> world \<Rightarrow> nat \<times> world" where
  "alloc d w = (length (heap w), w\<lparr>heap := heap w @ [d]\<rparr>)"

definition store :: "nat \<Rightarrow> config \<Rightarrow> world \<Rightarrow> world" where
  "store a d w = w\<lparr>heap := (heap w)[a := d]\<rparr>"

text \<open>\<^verbatim>\<open>d.copy()\<close> makes a new object; \<^verbatim>\<open>d.update(e)\<close> changes \<^verbatim>\<open>d\<close> in place.\<close>

definition dict_copy :: "nat \<Rightarrow> world \<Rightarrow> nat \<times> world" where
  "dict_copy a w = alloc (deref w a) w"

definition update_in_place :: "nat \<Rightarrow> config \<Rightarrow> world \<Rightarrow> world" where
  "update_in_place a e w = store a (dict_update (deref w a) e) w"

text \<open>
  A parameter \<^verbatim>\<open>options = dict()\<close>: its default is one empty dictionary that nothing
  writes to; \<open>None\<close> stands for it, \<open>Some a\<close> for the caller's object.
\<close>

definition options_dict :: "nat option \<Rightarrow> world \<Rightarrow> config" where
  "options_dict options w = (case options of None \<Rightarrow> [] | Some opt \<Rightarrow> deref w opt)"

text \<open>The constants of \<^verbatim>\<open>.const\<close> that hold data.\<close>

record constants =
  DEFAULT_USERNAME :: val
  DEFAULT_PORT :: val
  DEFAULT_SSL :: val
  DEFAULT_VERIFY_SSL :: val
  DEFAULT_ENABLE_CONTROL :: val
  DEFAULT_ENABLE_MONITOR :: val
  DEFAULT_CACHE_TIME :: val
  DEFAULT_SCAN_INTERVAL :: val
  DEFAULT_CONSIDER_HOME :: val
  DELAULT_INTERFACES :: "string list"
  SIMPLE_SETUP_PARAMETERS :: "(string, config) dict"
  STEP_TYPE_COMPLETE :: string
  STEP_TYPE_SIMPLE :: string
  SENSORS_MISC :: "string list"
  SENSORS_NETWORK_STAT :: "string list"
  SENSORS_PORTS :: "string list"
  SENSORS_RAM :: "string list"
  SENSORS_WAN :: "string list"

text \<open>
  A sample assignment of these constants, for evaluating the functions at concrete
  inputs. Its values are not taken from the sources.
\<close>

definition sample_constants :: constants where
  "sample_constants =
    \<lparr>DEFAULT_USERNAME = VStr ''admin'', DEFAULT_PORT = VInt 0, DEFAULT_SSL = VBool False,
     DEFAULT_VERIFY_SSL = VBool True, DEFAULT_ENABLE_CONTROL = VBool False,
     DEFAULT_ENABLE_MONITOR = VBool True, DEFAULT_CACHE_TIME = VInt 5,
     DEFAULT_SCAN_INTERVAL = VInt 30, DEFAULT_CONSIDER_HOME = VInt 45,
     DELAULT_INTERFACES = [''WAN'', ''WIRED''],
     SIMPLE_SETUP_PARAMETERS =
       [(''ssl'', [(CONF_PORT, VInt 8443), (CONF_VERIFY_SSL, VBool False)]),
        (''no_ssl'', [(CONF_PORT, VInt 80), (CONF_VERIFY_SSL, VBool False)])],
     STEP_TYPE_COMPLETE = ''complete'', STEP_TYPE_SIMPLE = ''simple'',
     SENSORS_MISC = [''boottime''], SENSORS_NETWORK_STAT = [''rx'', ''tx''],
     SENSORS_PORTS = [''WAN'', ''LAN''], SENSORS_RAM = [''free'', ''used''],
     SENSORS_WAN = [''status'']\<rparr>"

text \<open>A router that answers every call, and a world with two dictionaries.\<close>

definition sample_sdk :: sdk where
  "sample_sdk =
    \<lparr>api_async_connect = None,
     api_async_get_identity =
       Inr \<lparr>serial = Some ''SN1'', mac = None, model = None, brand = None\<rparr>,
     api_async_cleanup = None, api_async_disconnect = None,
     api_async_get_cpu_labels = Inr [''total'', ''core_1''],
     api_async_get_network_labels = Inr [''WAN''],
     api_async_get_ports =
       Inr [(''LAN'', [(''1'', 1000), (''2'', 0)]), (''WAN'', [(''0'', 0)])],
     gethostbyname = (\<lambda>host. Inr ''192.168.1.1'')\<rparr>"

definition sample_world :: world where
  "sample_world =
    \<lparr>heap = [[(CONF_HOST, VStr ''router'')],
             [(CONF_USERNAME, VStr ''admin''), (CONF_PASSWORD, VStr ''secret''),
              (CONF_PORT, VInt 80), (CONF_SSL, VBool False), (CONF_VERIFY_SSL, VBool False)]],
     trace = [], device_errors_default = []\<rparr>"

section \<open>bridge.py\<close>

subsection \<open>The names the module binds\<close>

text \<open>
  Every name bound at the top level of \<^verbatim>\<open>bridge.py\<close>: its imports, \<^verbatim>\<open>_LOGGER\<close> and
  its two classes. \<^verbatim>\<open>from .bridge import X\<close> raises \<^verbatim>\<open>ImportError\<close> when the module
  has no attribute \<^verbatim>\<open>X\<close> (\<^verbatim>\<open>bridge\<close> is a module, not a package, so there is no
  submodule to fall back to).
\<close>

definition bridge_module :: "string list" where
  "bridge_module =
    [''annotations'', ''logging'', ''_LOGGER'', ''Any'', ''ABC'', ''abstractmethod'',
     ''datetime'', ''AsusDevice'', ''AsusRouter'', ''AsusRouterError'', ''ConnectedDevice'',
     ''CONF_HOST'', ''CONF_PASSWORD'', ''CONF_PORT'', ''CONF_SSL'', ''CONF_USERNAME'',
     ''CONF_VERIFY_SSL'', ''HomeAssistant'', ''ConfigEntryNotReady'', ''format_mac'',
     ''UpdateFailed'', ''CONF_CACHE_TIME'', ''CONF_CERT_PATH'', ''CONF_ENABLE_CONTROL'',
     ''CONF_ENABLE_MONITOR'', ''SENSORS_MISC'', ''SENSORS_NETWORK_STAT'', ''SENSORS_PORTS'',
     ''SENSORS_RAM'', ''SENSORS_TYPE_CPU'', ''SENSORS_TYPE_MISC'',
     ''SENSORS_TYPE_NETWORK_STAT'', ''SENSORS_TYPE_PORTS'', ''SENSORS_TYPE_RAM'',
     ''SENSORS_TYPE_WAN'', ''SENSORS_WAN'', ''AsusRouterBridge'', ''AsusRouterBridgeHTTP'']"

definition import_from :: "string list \<Rightarrow> string \<Rightarrow> exc + string" where
  "import_from module name = (if name \<in> set module then Inr name else Inl ImportError)"

text \<open>Line 65 of \<^verbatim>\<open>config_flow.py\<close>: \<^verbatim>\<open>from .bridge import ARBridge\<close>.\<close>

definition config_flow_import_bridge :: "exc + string" where
  "config_flow_import_bridge = import_from bridge_module ''ARBridge''"

subsection \<open>AsusRouterBridgeHTTP\<close>

text \<open>
  The bridge object: the address of its own copy of the configuration, the host, and the
  device identity once \<^verbatim>\<open>async_connect\<close> has stored it.
\<close>

record bridge =
  bridge_configs :: nat
  bridge_host :: val
  bridge_identity :: "identity option"

text \<open>
  \<^verbatim>\<open>_get_api\<close>: the six subscripts raise \<^verbatim>\<open>KeyError\<close> on a missing key, the four
  \<^verbatim>\<open>get\<close> calls do not; then the SDK object is made.
\<close>

definition get_api :: "config \<Rightarrow> world \<Rightarrow> (exc + unit) \<times> world" where
  "get_api configs w =
    (if dict_in CONF_HOST configs \<and> dict_in CONF_USERNAME configs
        \<and> dict_in CONF_PASSWORD configs \<and> dict_in CONF_PORT configs
        \<and> dict_in CONF_SSL configs \<and> dict_in CONF_VERIFY_SSL configs
     then (Inr (), emit (Api New_AsusRouter) w)
     else (Inl KeyError, w))"

text \<open>\<^verbatim>\<open>__init__(self, configs, options = dict())\<close>.\<close>

definition AsusRouterBridgeHTTP_init ::
  "nat \<Rightarrow> nat option \<Rightarrow> world \<Rightarrow> (exc + bridge) \<times> world" where
  "AsusRouterBridgeHTTP_init configs options w =
    (let (own, w1) = dict_copy configs w;
         w2 = update_in_place own (options_dict options w1) w1
     in case get_api (deref w2 own) w2 of
          (Inl e, w3) \<Rightarrow> (Inl e, w3)
        | (Inr u, w3) \<Rightarrow>
            (case map_of (deref w3 own) CONF_HOST of
               None \<Rightarrow> (Inl KeyError, w3)
             | Some host \<Rightarrow>
                 (Inr \<lparr>bridge_configs = own, bridge_host = host, bridge_identity = None\<rparr>, w3)))"

text \<open>\<^verbatim>\<open>AsusRouterBridge.get_bridge(hass, configs, options)\<close>; \<^verbatim>\<open>hass\<close> is not used.\<close>

definition get_bridge :: "nat \<Rightarrow> nat option \<Rightarrow> world \<Rightarrow> (exc + bridge) \<times> world" where
  "get_bridge configs options w = AsusRouterBridgeHTTP_init configs options w"

text \<open>
  \<^verbatim>\<open>async_connect\<close>: an \<^verbatim>\<open>AsusRouterError\<close> is raised again as it is, any other
  exception becomes \<^verbatim>\<open>ConfigEntryNotReady\<close>.
\<close>

definition reraise_connect :: "exc \<Rightarrow> exc" where
  "reraise_connect ex = (if is_AsusRouterError ex then ex else ConfigEntryNotReady ex)"

definition async_connect :: "sdk \<Rightarrow> bridge \<Rightarrow> world \<Rightarrow> (exc + bridge) \<times> world" where
  "async_connect r self w =
    (let w1 = emit (Api Connect) w in
     case api_async_connect r of
       Some ex \<Rightarrow> (Inl (reraise_connect ex), w1)
     | None \<Rightarrow>
         (let w2 = emit (Api Get_identity) w1 in
          case api_async_get_identity r of
            Inl ex \<Rightarrow> (Inl (reraise_connect ex), w2)
          | Inr i \<Rightarrow> (Inr (self\<lparr>bridge_identity := Some i\<rparr>), w2)))"

definition async_disconnect :: "sdk \<Rightarrow> bridge \<Rightarrow> world \<Rightarrow> (exc + unit) \<times> world" where
  "async_disconnect r self w =
    (let w1 = emit (Api Disconnect) w in
     case api_async_disconnect r of Some ex \<Rightarrow> (Inl ex, w1) | None \<Rightarrow> (Inr (), w1))"

definition async_clean :: "sdk \<Rightarrow> bridge \<Rightarrow> world \<Rightarrow> (exc + unit) \<times> world" where
  "async_clean r self w =
    (let w1 = emit (Api Cleanup) w in
     case api_async_cleanup r of Some ex \<Rightarrow> (Inl ex, w1) | None \<Rightarrow> (Inr (), w1))"

text \<open>\<^verbatim>\<open>get_serial\<close> reads \<^verbatim>\<open>self._identity\<close>, an attribute that exists after a connect.\<close>

definition get_serial :: "bridge \<Rightarrow> exc + string option" where
  "get_serial self =
    (case bridge_identity self of None \<Rightarrow> Inl AttributeError | Some i \<Rightarrow> Inr (serial i))"

definition async_get_network_interfaces ::
  "sdk \<Rightarrow> bridge \<Rightarrow> world \<Rightarrow> (exc + string list) \<times> world" where
  "async_get_network_interfaces r self w =
    (api_async_get_network_labels r, emit (Api Get_network_labels) w)"

subsection \<open>Reading the ports\<close>

text \<open>
  \<^verbatim>\<open>data[k] += v\<close> and \<^verbatim>\<open>data[k] > 0\<close> on the values a \<^verbatim>\<open>data\<close> entry can hold;
  \<^verbatim>\<open>True\<close> counts as 1.
\<close>

fun val_add :: "val \<Rightarrow> int \<Rightarrow> exc + val" where
  "val_add (VInt a) v = Inr (VInt (a + v))"
| "val_add (VBool b) v = Inr (VInt ((if b then 1 else 0) + v))"
| "val_add x v = Inl TypeError"

fun val_positive :: "val \<Rightarrow> exc + bool" where
  "val_positive (VInt a) = Inr (0 < a)"
| "val_positive (VBool b) = Inr b"
| "val_positive x = Inl TypeError"

text \<open>The inner loop of \<^verbatim>\<open>_get_ports\<close>, over the ports of one type.\<close>

fun get_ports_of_type ::
  "string \<Rightarrow> (string, int) dict \<Rightarrow> (string \<rightharpoonup> val) \<Rightarrow> exc + (string \<rightharpoonup> val)" where
  "get_ports_of_type ty [] data = Inr data"
| "get_ports_of_type ty ((port, v) # rest) data =
    (let data1 = data(ty @ ''_'' @ port \<mapsto> VInt v) in
     case data1 (ty @ ''_total'') of
       None \<Rightarrow> Inl KeyError
     | Some t \<Rightarrow>
         (case val_add t v of
            Inl e \<Rightarrow> Inl e
          | Inr t' \<Rightarrow> get_ports_of_type ty rest (data1(ty @ ''_total'' \<mapsto> t'))))"

text \<open>The outer loop, over \<^verbatim>\<open>SENSORS_PORTS\<close>.\<close>

fun get_ports_loop ::
  "string list \<Rightarrow> ports_raw \<Rightarrow> (string \<rightharpoonup> val) \<Rightarrow> exc + (string \<rightharpoonup> val)" where
  "get_ports_loop [] raw data = Inr data"
| "get_ports_loop (ty # tys) raw data =
    (case map_of raw ty of
       None \<Rightarrow> get_ports_loop tys raw data
     | Some ports \<Rightarrow>
         (case get_ports_of_type ty ports (data(ty @ ''_total'' \<mapsto> VInt 0)) of
            Inl e \<Rightarrow> Inl e
          | Inr data1 \<Rightarrow>
              (case data1 (ty @ ''_total'') of
                 None \<Rightarrow> Inl KeyError
               | Some t \<Rightarrow>
                   (case val_positive t of
                      Inl e \<Rightarrow> Inl e
                    | Inr positive \<Rightarrow>
                        get_ports_loop tys raw
                          (if positive then data1(ty \<mapsto> VBool True) else data1)))))"

text \<open>\<^verbatim>\<open>except (OSError, ValueError) as ex: raise UpdateFailed(ex) from ex\<close>.\<close>

definition update_failed :: "exc \<Rightarrow> exc" where
  "update_failed ex = (if is_OSError ex \<or> is_ValueError ex then UpdateFailed ex else ex)"

definition get_ports :: "constants \<Rightarrow> sdk \<Rightarrow> world \<Rightarrow> (exc + (string \<rightharpoonup> val)) \<times> world" where
  "get_ports K r w =
    (let w1 = emit (Api Get_ports) w in
     case api_async_get_ports r of
       Inl ex \<Rightarrow> (Inl (update_failed ex), w1)
     | Inr raw \<Rightarrow>
         (case get_ports_loop (SENSORS_PORTS K) raw Map.empty of
            Inl ex \<Rightarrow> (Inl (update_failed ex), w1)
          | Inr data \<Rightarrow> (Inr data, w1)))"

text \<open>
  The entries that one port type with ports \<open>ps\<close> has in the result \<open>d\<close> of the
  loop started on \<open>data\<close>; used to state what the loop computes.
\<close>

definition ports_entries :: "string \<Rightarrow> (string, int) dict \<Rightarrow> (string \<rightharpoonup> val) \<Rightarrow> (string \<rightharpoonup> val) \<Rightarrow> bool" where
  "ports_entries ty ps data d =
     (d (ty @ ''_total'') = Some (VInt (sum_list (map snd ps)))
      \<and> (\<forall>(p, v) \<in> set ps. d (ty @ ''_'' @ p) = Some (VInt v))
      \<and> d ty = (if 0 < sum_list (map snd ps) then Some (VBool True) else data ty))"

text \<open>
  The names that the loop writes for one port type: the bare type name, the total, and
  one name per port. \<open>collision_free\<close> says that, over the types of the list that the
  data holds, no two of these names coincide: neither two names of one type (a port
  that \<^verbatim>\<open>str.format\<close> renders as \<^verbatim>\<open>total\<close>) nor names of two different types. A
  type may occur twice in the list.
\<close>

definition type_names :: "string \<Rightarrow> (string, int) dict \<Rightarrow> string list" where
  "type_names ty ports = [ty, ty @ ''_total''] @ map (\<lambda>port. ty @ ''_'' @ port) (map fst ports)"

definition collision_free :: "string list \<Rightarrow> ports_raw \<Rightarrow> bool" where
  "collision_free tys raw \<longleftrightarrow>
    (\<forall>ty \<in> set tys.
       case map_of raw ty of
         None \<Rightarrow> True
       | Some ps \<Rightarrow>
           distinct (type_names ty ps)
         \<and> (\<forall>ty' \<in> set tys.
               case map_of raw ty' of
                 None \<Rightarrow> True
               | Some ps' \<Rightarrow>
                   ty' = ty \<or> set (type_names ty ps) \<inter> set (type_names ty' ps') = {}))"

subsection \<open>The lists of available sensors\<close>

definition get_cpu_sensors :: "sdk \<Rightarrow> bridge \<Rightarrow> world \<Rightarrow> string list \<times> world" where
  "get_cpu_sensors r self w =
    (let w1 = emit (Api Get_cpu_labels) w in
     case api_async_get_cpu_labels r of
       Inr sensors \<Rightarrow>
         (sensors, emit (Log DEBUG ''Available CPU sensors: {}'' [ANames sensors]) w1)
     | Inl ex \<Rightarrow>
         ([''total''],
          emit (Log WARNING ''Cannot get available CPU sensors for {}: {}''
                  [AVal (bridge_host self), AExc ex]) w1))"

text \<open>
  The two nested loops of \<^verbatim>\<open>_get_network_stat_sensors\<close> append, for every label in
  order, one name per element of \<^verbatim>\<open>SENSORS_NETWORK_STAT\<close>.
\<close>

fun network_stat_names :: "string list \<Rightarrow> string list \<Rightarrow> string list" where
  "network_stat_names [] els = []"
| "network_stat_names (label # labels) els =
    map (\<lambda>el. label @ ''_'' @ el) els @ network_stat_names labels els"

definition get_network_stat_sensors ::
  "constants \<Rightarrow> sdk \<Rightarrow> bridge \<Rightarrow> world \<Rightarrow> string list \<times> world" where
  "get_network_stat_sensors K r self w =
    (let w1 = emit (Api Get_network_labels) w in
     case api_async_get_network_labels r of
       Inr labels \<Rightarrow>
         (let sensors = network_stat_names labels (SENSORS_NETWORK_STAT K) in
          (sensors, emit (Log DEBUG ''Available network stat sensors: {}'' [ANames sensors]) w1))
     | Inl ex \<Rightarrow>
         ([],
          emit (Log WARNING ''Cannot get available network stat sensors for {}: {}''
                  [AVal (bridge_host self), AExc ex]) w1))"

text \<open>The loops of \<^verbatim>\<open>_get_ports_sensors\<close>.\<close>

fun ports_sensor_names :: "string list \<Rightarrow> ports_raw \<Rightarrow> string list" where
  "ports_sensor_names [] raw = []"
| "ports_sensor_names (ty # tys) raw =
    (case map_of raw ty of
       None \<Rightarrow> ports_sensor_names tys raw
     | Some ports \<Rightarrow>
         [ty, ty @ ''_total''] @ map (\<lambda>port. ty @ ''_'' @ port) (map fst ports)
           @ ports_sensor_names tys raw)"

definition get_ports_sensors ::
  "constants \<Rightarrow> sdk \<Rightarrow> bridge \<Rightarrow> world \<Rightarrow> string list \<times> world" where
  "get_ports_sensors K r self w =
    (let w1 = emit (Api Get_ports) w in
     case api_async_get_ports r of
       Inr raw \<Rightarrow>
         (let sensors = ports_sensor_names (SENSORS_PORTS K) raw in
          (sensors, emit (Log DEBUG ''Available ports sensors: {}'' [ANames sensors]) w1))
     | Inl ex \<Rightarrow>
         ([],
          emit (Log WARNING ''Cannot get available ports sensors for {}: {}''
                  [AVal (bridge_host self), AExc ex]) w1))"

text \<open>The bound methods that \<^verbatim>\<open>async_get_available_sensors\<close> hands out for polling.\<close>

datatype poll_method =
  Poll_get_cpu | Poll_get_ram | Poll_get_network_stat | Poll_get_misc | Poll_get_ports | Poll_get_wan

record sensor_entry =
  sensors :: "string list"
  entry_method :: poll_method

definition async_get_available_sensors ::
  "constants \<Rightarrow> sdk \<Rightarrow> bridge \<Rightarrow> world \<Rightarrow> (sensors_type, sensor_entry) dict \<times> world" where
  "async_get_available_sensors K r self w =
    (let (cpu, w1) = get_cpu_sensors r self w;
         (network_stat, w2) = get_network_stat_sensors K r self w1;
         (ports, w3) = get_ports_sensors K r self w2
     in ([(SENSORS_TYPE_CPU, \<lparr>sensors = cpu, entry_method = Poll_get_cpu\<rparr>),
          (SENSORS_TYPE_RAM, \<lparr>sensors = SENSORS_RAM K, entry_method = Poll_get_ram\<rparr>),
          (SENSORS_TYPE_NETWORK_STAT, \<lparr>sensors = network_stat, entry_method = Poll_get_network_stat\<rparr>),
          (SENSORS_TYPE_MISC, \<lparr>sensors = SENSORS_MISC K, entry_method = Poll_get_misc\<rparr>),
          (SENSORS_TYPE_PORTS, \<lparr>sensors = ports, entry_method = Poll_get_ports\<rparr>),
          (SENSORS_TYPE_WAN, \<lparr>sensors = SENSORS_WAN K, entry_method = Poll_get_wan\<rparr>)], w3))"

section \<open>config_flow.py\<close>

subsection \<open>Module functions\<close>

text \<open>\<^verbatim>\<open>_check_host\<close>: only \<^verbatim>\<open>socket.gaierror\<close> is turned into \<^verbatim>\<open>None\<close>.\<close>

definition check_host :: "sdk \<Rightarrow> val \<Rightarrow> exc + string option" where
  "check_host r host =
    (case gethostbyname r host of
       Inr ip \<Rightarrow> Inr (Some ip)
     | Inl ex \<Rightarrow> (if ex = Gaierror then Inr None else Inl ex))"

definition check_errors :: "(string, result_code) dict \<Rightarrow> bool" where
  "check_errors errors =
    (case map_of errors ''base'' of
       None \<Rightarrow> False
     | Some base \<Rightarrow> base \<noteq> RESULT_SUCCESS \<and> base \<noteq> Text [])"

text \<open>
  \<^verbatim>\<open>ARBridge(hass, configs, options)\<close>. \<^verbatim>\<open>bridge.py\<close> binds no name \<^verbatim>\<open>ARBridge\<close>
  (see \<open>config_flow_import_bridge\<close>); the functions below are modelled with the name
  bound to the one factory of \<^verbatim>\<open>bridge.py\<close> that takes these arguments,
  \<^verbatim>\<open>AsusRouterBridge.get_bridge\<close>.
\<close>

definition ARBridge :: "nat \<Rightarrow> nat option \<Rightarrow> world \<Rightarrow> (exc + bridge) \<times> world" where
  "ARBridge configs options w = get_bridge configs options w"

text \<open>
  \<^verbatim>\<open>_async_get_network_interfaces\<close>. The handler of the \<^verbatim>\<open>try\<close> block formats its
  message with \<^verbatim>\<open>configs[CONF_HOST]\<close>, a subscript of the caller's \<^verbatim>\<open>configs\<close>.
\<close>

definition network_interfaces_failed ::
  "constants \<Rightarrow> nat \<Rightarrow> exc \<Rightarrow> world \<Rightarrow> (exc + string list) \<times> world" where
  "network_interfaces_failed K configs ex w =
    (case map_of (deref w configs) CONF_HOST of
       None \<Rightarrow> (Inl KeyError, w)
     | Some host \<Rightarrow>
         (Inr (DELAULT_INTERFACES K),
          emit (Log DEBUG ''Cannot get available network stat sensors for {}: {}''
                  [AVal host, AExc ex]) w))"

definition cf_async_get_network_interfaces ::
  "constants \<Rightarrow> sdk \<Rightarrow> nat \<Rightarrow> nat option \<Rightarrow> world \<Rightarrow> (exc + string list) \<times> world" where
  "cf_async_get_network_interfaces K r configs options w =
    (case ARBridge configs options w of
       (Inl ex, w1) \<Rightarrow> (Inl ex, w1)
     | (Inr api, w1) \<Rightarrow>
         (case async_get_network_interfaces r api w1 of
            (Inl ex, w2) \<Rightarrow> network_interfaces_failed K configs ex w2
          | (Inr labels, w2) \<Rightarrow>
              (case async_disconnect r api w2 of
                 (Inl ex, w3) \<Rightarrow> network_interfaces_failed K configs ex w3
               | (Inr u, w3) \<Rightarrow> (Inr labels, w3))))"

text \<open>
  The dictionary that \<^verbatim>\<open>_async_check_connection\<close> returns: either the key
  \<^verbatim>\<open>"errors"\<close> alone, or \<^verbatim>\<open>"unique_id"\<close> and \<^verbatim>\<open>"configs"\<close>. A field is \<open>None\<close>
  when the key is absent; \<^verbatim>\<open>"configs"\<close> holds a reference.
\<close>

record check_result =
  result_errors :: "result_code option"
  result_unique_id :: "string option option"
  result_configs :: "nat option"

definition errors_result :: "result_code \<Rightarrow> check_result" where
  "errors_result code =
    \<lparr>result_errors = Some code, result_unique_id = None, result_configs = None\<rparr>"

text \<open>
  Lines 119 to 137: the working copy, the early return, the simplified set-up, and the
  bridge. The outcome is the function's outcome when it ends here (\<open>Inl\<close>), or the
  local variables \<^verbatim>\<open>configs_to_use\<close>, \<^verbatim>\<open>host\<close>, \<^verbatim>\<open>step_type\<close> and \<^verbatim>\<open>api\<close>.
\<close>

definition check_connection_setup ::
  "constants \<Rightarrow> nat \<Rightarrow> nat option \<Rightarrow> bool \<Rightarrow> world
    \<Rightarrow> ((exc + check_result) + (nat \<times> val \<times> string \<times> bridge)) \<times> world" where
  "check_connection_setup K configs options simple w =
    (let (configs_to_use, w1) = dict_copy configs w;
         w2 = update_in_place configs_to_use (options_dict options w1) w1
     in case map_of (deref w2 configs_to_use) CONF_HOST of
          None \<Rightarrow> (Inl (Inr (errors_result RESULT_ERROR)), w2)
        | Some host \<Rightarrow>
            (let chosen =
               (if simple then
                  (case map_of (deref w2 configs_to_use) CONF_SSL of
                     None \<Rightarrow> Inl KeyError
                   | Some ssl \<Rightarrow>
                       (case map_of (SIMPLE_SETUP_PARAMETERS K)
                               (if truthy ssl then ''ssl'' else ''no_ssl'') of
                          None \<Rightarrow> Inl KeyError
                        | Some params \<Rightarrow>
                            Inr (STEP_TYPE_SIMPLE K,
                                 emit (Log DEBUG ''Setup ({}) initiated'' [AStr (STEP_TYPE_SIMPLE K)])
                                   (update_in_place configs_to_use params w2))))
                else Inr (STEP_TYPE_COMPLETE K, w2))
             in case chosen of
                  Inl ex \<Rightarrow> (Inl (Inl ex), w2)
                | Inr (step_type, w3) \<Rightarrow>
                    (case ARBridge configs_to_use None w3 of
                       (Inl ex, w4) \<Rightarrow> (Inl (Inl ex), w4)
                     | (Inr api, w4) \<Rightarrow> (Inr (configs_to_use, host, step_type, api), w4))))"

text \<open>The four \<^verbatim>\<open>except\<close> clauses, in their order: the code returned and the record logged.\<close>

fun connect_failed :: "bool \<Rightarrow> val \<Rightarrow> exc \<Rightarrow> result_code \<times> event" where
  "connect_failed simple host AsusRouterLoginError =
    (RESULT_WRONG_CREDENTIALS,
     Log ERROR ''Error during connection to '{}'. Wrong credentials'' [AVal host])"
| "connect_failed simple host (AsusRouterLoginBlockError timeout) =
    (RESULT_LOGIN_BLOCKED,
     Log ERROR ''Device '{}' has reported block for the login (to many wrong attempts were made). Please try again in {} seconds''
       [AVal host, AVal (VInt (int timeout))])"
| "connect_failed simple host (AsusRouterConnectionError m) =
    (RESULT_CONNECTION_REFUSED,
     if simple
     then Log DEBUG ''Simplified setup failed for {}. Switching to the complete mode. Original exception of type {}: {}''
            [AVal host, AExcType (AsusRouterConnectionError m), AExc (AsusRouterConnectionError m)]
     else Log ERROR ''Connection refused by {}. Check SSL and port settings. Original exception: {}''
            [AVal host, AExc (AsusRouterConnectionError m)])"
| "connect_failed simple host ex =
    (RESULT_UNKNOWN,
     if simple
     then Log DEBUG ''Simplified setup failed for {}. Switching to the complete mode. Original exception of type {}: {}''
            [AVal host, AExcType ex, AExc ex]
     else Log ERROR ''Unknown error of type '{}' during connection to {}: {}''
            [AExcType ex, AVal host, AExc ex])"

text \<open>\<^verbatim>\<open>for item in configs: configs_to_use.pop(item)\<close>, over the keys of \<^verbatim>\<open>configs\<close>.\<close>

fun pop_items :: "conf_key list \<Rightarrow> nat \<Rightarrow> world \<Rightarrow> (exc + unit) \<times> world" where
  "pop_items [] a w = (Inr (), w)"
| "pop_items (item # items) a w =
    (if dict_in item (deref w a)
     then pop_items items a (store a (AList.delete item (deref w a)) w)
     else (Inl KeyError, w))"

text \<open>
  Lines 139 to 184: the \<^verbatim>\<open>try\<close> statement with its \<^verbatim>\<open>finally\<close> clause, which runs
  on every path and whose own exception replaces a pending \<^verbatim>\<open>return\<close>, and the rest of
  the function.
\<close>

definition check_connection_probe ::
  "constants \<Rightarrow> sdk \<Rightarrow> nat \<Rightarrow> bool \<Rightarrow> nat \<times> val \<times> string \<times> bridge \<Rightarrow> world
    \<Rightarrow> (exc + check_result) \<times> world" where
  "check_connection_probe K r configs simple locals w =
    (case locals of (configs_to_use, host, step_type, api) \<Rightarrow>
       (case async_connect r api w of
          (Inl ex, w1) \<Rightarrow>
            (let (code, record) = connect_failed simple host ex in
             case async_clean r api (emit record w1) of
               (Inl ex', w2) \<Rightarrow> (Inl ex', w2)
             | (Inr u, w2) \<Rightarrow> (Inr (errors_result code), w2))
        | (Inr api1, w1) \<Rightarrow>
            (case async_clean r api1 w1 of
               (Inl ex', w2) \<Rightarrow> (Inl ex', w2)
             | (Inr u, w2) \<Rightarrow>
                 (case get_serial api1 of
                    Inl ex \<Rightarrow> (Inl ex, w2)
                  | Inr unique_id \<Rightarrow>
                      (case async_disconnect r api1 w2 of
                         (Inl ex, w3) \<Rightarrow> (Inl ex, w3)
                       | (Inr u', w3) \<Rightarrow>
                           (case pop_items (map fst (deref w3 configs)) configs_to_use w3 of
                              (Inl ex, w4) \<Rightarrow> (Inl ex, w4)
                            | (Inr u'', w4) \<Rightarrow>
                                (Inr \<lparr>result_errors = None, result_unique_id = Some unique_id,
                                      result_configs = Some configs_to_use\<rparr>,
                                 emit (Log DEBUG ''Setup ({}) successful'' [AStr step_type]) w4)))))))"

text \<open>\<^verbatim>\<open>_async_check_connection(hass, configs, options = dict(), simple = False)\<close>.\<close>

definition async_check_connection ::
  "constants \<Rightarrow> sdk \<Rightarrow> nat \<Rightarrow> nat option \<Rightarrow> bool \<Rightarrow> world \<Rightarrow> (exc + check_result) \<times> world" where
  "async_check_connection K r configs options simple w =
    (case check_connection_setup K configs options simple w of
       (Inl outcome, w1) \<Rightarrow> (outcome, w1)
     | (Inr locals, w1) \<Rightarrow> check_connection_probe K r configs simple locals w1)"

subsection \<open>Forms\<close>

text \<open>
  A \<^verbatim>\<open>vol.Schema\<close> over a dictionary: one field per entry, with its marker, key,
  default and validator.
\<close>

datatype marker = Required | Optional

datatype validator = T_str | T_int | T_bool | T_multi_select "(string, string) dict"

record field =
  field_marker :: marker
  field_key :: conf_key
  field_default :: val
  field_validator :: validator

type_synonym schema = "field list"

definition mk_field :: "marker \<Rightarrow> conf_key \<Rightarrow> val \<Rightarrow> validator \<Rightarrow> field" where
  "mk_field m k d t = \<lparr>field_marker = m, field_key = k, field_default = d, field_validator = t\<rparr>"

definition create_form_discovery :: "config \<Rightarrow> schema" where
  "create_form_discovery user_input =
    [mk_field Required CONF_HOST (dict_get user_input CONF_HOST (VStr [])) T_str]"

definition create_form_credentials :: "constants \<Rightarrow> config \<Rightarrow> schema" where
  "create_form_credentials K user_input =
    [mk_field Required CONF_USERNAME (dict_get user_input CONF_USERNAME (DEFAULT_USERNAME K)) T_str,
     mk_field Required CONF_PASSWORD (dict_get user_input CONF_PASSWORD (VStr [])) T_str,
     mk_field Optional CONF_SSL (dict_get user_input CONF_SSL (DEFAULT_SSL K)) T_bool]"

definition create_form_device :: "constants \<Rightarrow> config \<Rightarrow> schema" where
  "create_form_device K user_input =
    [mk_field Required CONF_USERNAME (dict_get user_input CONF_USERNAME (DEFAULT_USERNAME K)) T_str,
     mk_field Required CONF_PASSWORD (dict_get user_input CONF_PASSWORD (VStr [])) T_str,
     mk_field Optional CONF_PORT (dict_get user_input CONF_PORT (DEFAULT_PORT K)) T_int,
     mk_field Optional CONF_SSL (dict_get user_input CONF_SSL (DEFAULT_SSL K)) T_bool,
     mk_field Optional CONF_VERIFY_SSL
       (dict_get user_input CONF_VERIFY_SSL (DEFAULT_VERIFY_SSL K)) T_bool,
     mk_field Optional CONF_CERT_PATH (dict_get user_input CONF_CERT_PATH (VStr [])) T_str]"

text \<open>The entry for \<^verbatim>\<open>CONF_ENABLE_MONITOR\<close> is commented out in the source.\<close>

definition create_form_operation_mode :: "constants \<Rightarrow> config \<Rightarrow> schema" where
  "create_form_operation_mode K user_input =
    [mk_field Required CONF_ENABLE_CONTROL
       (dict_get user_input CONF_ENABLE_CONTROL (DEFAULT_ENABLE_CONTROL K)) T_bool]"

definition create_form_times :: "constants \<Rightarrow> config \<Rightarrow> schema" where
  "create_form_times K user_input =
    [mk_field Required CONF_CACHE_TIME
       (dict_get user_input CONF_CACHE_TIME (DEFAULT_CACHE_TIME K)) T_int,
     mk_field Required CONF_SCAN_INTERVAL
       (dict_get user_input CONF_SCAN_INTERVAL (DEFAULT_SCAN_INTERVAL K)) T_int,
     mk_field Required CONF_CONSIDER_HOME
       (dict_get user_input CONF_CONSIDER_HOME (DEFAULT_CONSIDER_HOME K)) T_int]"

text \<open>
  \<^verbatim>\<open>{k: k for k in user_input["interfaces"]}\<close>: the subscript raises on a missing key,
  the comprehension iterates a list or the characters of a string.
\<close>

definition create_form_interfaces :: "config \<Rightarrow> string list \<Rightarrow> exc + schema" where
  "create_form_interfaces user_input dflt =
    (case map_of user_input (Key ''interfaces'') of
       None \<Rightarrow> Inl KeyError
     | Some (VList names) \<Rightarrow>
         Inr [mk_field Required CONF_INTERFACES (VList dflt)
                (T_multi_select (dict_update [] (map (\<lambda>k. (k, k)) names)))]
     | Some (VStr s) \<Rightarrow>
         Inr [mk_field Required CONF_INTERFACES (VList dflt)
                (T_multi_select (dict_update [] (map (\<lambda>c. ([c], [c])) s)))]
     | Some other \<Rightarrow> Inl TypeError)"

definition create_form_name :: "config \<Rightarrow> schema" where
  "create_form_name user_input =
    [mk_field Optional CONF_NAME (dict_get user_input CONF_NAME (VStr [])) T_str]"

definition create_form_confirmation :: "config \<Rightarrow> schema" where
  "create_form_confirmation user_input =
    [mk_field Optional CONF_CONFIRM (dict_get user_input CONF_CONFIRM (VBool False)) T_bool]"

subsection \<open>ASUSRouterFlowHandler\<close>

text \<open>
  The handler holds references to its two dictionaries; \<open>unique_id\<close> is what
  \<^verbatim>\<open>async_set_unique_id\<close> stores. A step returns what the framework methods
  \<^verbatim>\<open>async_show_form\<close> and \<^verbatim>\<open>async_create_entry\<close> build.
\<close>

record handler =
  self_configs :: nat
  self_options :: nat
  unique_id :: "string option"

datatype flow_result =
    Show_form string schema "(string, result_code) dict option"
  | Create_entry val config config

definition ASUSRouterFlowHandler_init :: "world \<Rightarrow> handler \<times> world" where
  "ASUSRouterFlowHandler_init w =
    (let (c, w1) = alloc [] w; (opt, w2) = alloc [] w1
     in (\<lparr>self_configs = c, self_options = opt, unique_id = None\<rparr>, w2))"

text \<open>The bound methods that \<^verbatim>\<open>__init__\<close> stores in \<^verbatim>\<open>self._steps\<close>, and the table.\<close>

datatype step_method =
    Async_step_credentials | Async_step_device | Async_step_operation_mode
  | Async_step_times | Async_step_interfaces | Async_step_name | Async_step_finish

definition steps :: "(string, step_method) dict" where
  "steps =
    [(''discovery'', Async_step_credentials),
     (''credentials'', Async_step_operation_mode),
     (''credentials_error'', Async_step_device),
     (''device'', Async_step_operation_mode),
     (''operation_mode'', Async_step_times),
     (''times'', Async_step_interfaces),
     (''interfaces'', Async_step_name),
     (''name'', Async_step_finish)]"

text \<open>A step tests \<^verbatim>\<open>if user_input:\<close>; \<^verbatim>\<open>None\<close> and the empty dictionary both fail it.\<close>

definition input_dict :: "config option \<Rightarrow> config" where
  "input_dict user_input = (case user_input of None \<Rightarrow> [] | Some u \<Rightarrow> u)"

text \<open>
  The dictionary that the parameter \<^verbatim>\<open>errors\<close> of \<^verbatim>\<open>async_step_device\<close> is bound to:
  the caller's, or the shared default object.
\<close>

definition errors_object :: "(string, result_code) dict option \<Rightarrow> world \<Rightarrow> (string, result_code) dict" where
  "errors_object errors_kw w = (case errors_kw of None \<Rightarrow> device_errors_default w | Some e \<Rightarrow> e)"

text \<open>Used for termination only: the method that \<^verbatim>\<open>async_select_step\<close> calls, if any.\<close>

definition selected :: "string option \<Rightarrow> (string, result_code) dict \<Rightarrow> step_method option" where
  "selected last_step errors =
    (case last_step of
       None \<Rightarrow> None
     | Some l \<Rightarrow>
         (if check_errors errors then map_of steps (l @ ''_error'') else map_of steps l))"

text \<open>
  \<^verbatim>\<open>async_select_step\<close> and the step methods call each other. \<open>call_step\<close> applies a
  bound method of the table to \<^verbatim>\<open>user_input\<close> and to the keyword argument
  \<^verbatim>\<open>errors\<close> (\<open>None\<close> when the caller passes none); it has one equation per method.
  Only \<^verbatim>\<open>async_step_device\<close> has a parameter \<^verbatim>\<open>errors\<close>, so the call with the keyword
  is a \<^verbatim>\<open>TypeError\<close> for any other method. A local copy of the options that a step
  only reads to build a form is read in place.
\<close>

function async_select_step ::
  "constants \<Rightarrow> sdk \<Rightarrow> handler \<Rightarrow> world \<Rightarrow> string option \<Rightarrow> (string, result_code) dict
    \<Rightarrow> (exc + flow_result) \<times> handler \<times> world"
and call_step ::
  "constants \<Rightarrow> sdk \<Rightarrow> step_method \<Rightarrow> handler \<Rightarrow> world \<Rightarrow> config option
    \<Rightarrow> (string, result_code) dict option \<Rightarrow> (exc + flow_result) \<times> handler \<times> world"
where
  "async_select_step K r h w last_step errors =
    (case last_step of
       None \<Rightarrow> (Inl (ValueError ''Step name was not provided''), h, w)
     | Some l \<Rightarrow>
         (if l = [] then (Inl (ValueError ''Step name was not provided''), h, w)
          else
            (case map_of steps l of
               None \<Rightarrow> (Inl (ValueError (''Unknown value of last_step: '' @ l)), h, w)
             | Some next_step \<Rightarrow>
                 (if check_errors errors
                  then
                    (case map_of steps (l @ ''_error'') of
                       None \<Rightarrow> (Inl KeyError, h, w)
                     | Some on_error \<Rightarrow>
                         (if on_error = Async_step_device
                          then call_step K r on_error h w None (Some errors)
                          else (Inl TypeError, h, w)))
                  else call_step K r next_step h w None None))))"
| "call_step K r Async_step_credentials h w user_input errors_kw =
    (let u = input_dict user_input; step_id = ''credentials''; errors = [] in
     if u \<noteq> [] then
       (let w1 = update_in_place (self_options h) u w in
        case async_check_connection K r (self_configs h) (Some (self_options h)) True w1 of
          (Inl ex, w2) \<Rightarrow> (Inl ex, h, w2)
        | (Inr result, w2) \<Rightarrow>
            (case result_errors result of
               Some code \<Rightarrow>
                 (let errors1 = AList.update ''base'' code errors in
                  if code \<noteq> RESULT_WRONG_CREDENTIALS \<and> code \<noteq> RESULT_LOGIN_BLOCKED
                  then async_select_step K r h w2 (Some step_id) errors1
                  else (Inr (Show_form step_id (create_form_credentials K u) (Some errors1)), h, w2))
             | None \<Rightarrow>
                 (case result_configs result of
                    None \<Rightarrow> (Inl KeyError, h, w2)
                  | Some c \<Rightarrow>
                      (let w3 = update_in_place (self_options h) (deref w2 c) w2 in
                       case result_unique_id result of
                         None \<Rightarrow> (Inl KeyError, h, w3)
                       | Some uid \<Rightarrow>
                           async_select_step K r (h\<lparr>unique_id := uid\<rparr>) w3 (Some step_id) errors))))
     else (Inr (Show_form step_id (create_form_credentials K (deref w (self_options h)))
                 (Some errors)), h, w))"
| "call_step K r Async_step_device h w user_input errors_kw =
    (let u = input_dict user_input; step_id = ''device'' in
     if u \<noteq> [] then
       (let w1 = update_in_place (self_options h) u w in
        case async_check_connection K r (self_configs h) (Some (self_options h)) False w1 of
          (Inl ex, w2) \<Rightarrow> (Inl ex, h, w2)
        | (Inr result, w2) \<Rightarrow>
            (case result_errors result of
               Some code \<Rightarrow>
                 (let errors1 = AList.update ''base'' code (errors_object errors_kw w2);
                      w3 = (case errors_kw of
                              None \<Rightarrow> w2\<lparr>device_errors_default := errors1\<rparr>
                            | Some e \<Rightarrow> w2)
                  in (Inr (Show_form step_id (create_form_device K u) (Some errors1)), h, w3))
             | None \<Rightarrow>
                 (case result_configs result of
                    None \<Rightarrow> (Inl KeyError, h, w2)
                  | Some c \<Rightarrow>
                      (let w3 = update_in_place (self_options h) (deref w2 c) w2 in
                       case result_unique_id result of
                         None \<Rightarrow> (Inl KeyError, h, w3)
                       | Some uid \<Rightarrow>
                           async_select_step K r (h\<lparr>unique_id := uid\<rparr>) w3 (Some step_id)
                             (errors_object errors_kw w3)))))
     else (Inr (Show_form step_id (create_form_device K (deref w (self_options h)))
                 (Some (errors_object errors_kw w))), h, w))"
| "call_step K r Async_step_operation_mode h w user_input errors_kw =
    (let u = input_dict user_input; step_id = ''operation_mode'' in
     if u = [] then
       (Inr (Show_form step_id (create_form_operation_mode K (deref w (self_options h))) None), h, w)
     else async_select_step K r h (update_in_place (self_options h) u w) (Some step_id) [])"
| "call_step K r Async_step_times h w user_input errors_kw =
    (let u = input_dict user_input; step_id = ''times'' in
     if u = [] then
       (Inr (Show_form step_id (create_form_times K (deref w (self_options h))) None), h, w)
     else async_select_step K r h (update_in_place (self_options h) u w) (Some step_id) [])"
| "call_step K r Async_step_interfaces h w user_input errors_kw =
    (let u = input_dict user_input; step_id = ''interfaces'' in
     if truthy (dict_get (deref w (self_options h)) CONF_ENABLE_MONITOR (DEFAULT_ENABLE_MONITOR K))
     then
       (if u = [] then
          (case cf_async_get_network_interfaces K r (self_configs h) (Some (self_options h)) w of
             (Inl ex, w1) \<Rightarrow> (Inl ex, h, w1)
           | (Inr labels, w1) \<Rightarrow>
               (case create_form_interfaces
                       (AList.update (Key ''interfaces'') (VList labels) (deref w (self_options h))) [] of
                  Inl ex \<Rightarrow> (Inl ex, h, w1)
                | Inr form \<Rightarrow> (Inr (Show_form step_id form None), h, w1)))
        else async_select_step K r h (update_in_place (self_options h) u w) (Some step_id) [])
     else async_select_step K r h w (Some step_id) [])"
| "call_step K r Async_step_name h w user_input errors_kw =
    (let u = input_dict user_input; step_id = ''name'' in
     if u = [] then (Inr (Show_form step_id (create_form_name []) None), h, w)
     else async_select_step K r h (update_in_place (self_options h) u w) (Some step_id) [])"
| "call_step K r Async_step_finish h w user_input errors_kw =
    (case map_of (deref w (self_configs h)) CONF_HOST of
       None \<Rightarrow> (Inl KeyError, h, w)
     | Some title \<Rightarrow>
         (Inr (Create_entry title (deref w (self_configs h)) (deref w (self_options h))), h, w))"
  by pat_completeness auto
termination
  apply (relation "measure (\<lambda>x. case x of
      Inl (K, r, h, w, last_step, errors) \<Rightarrow>
        (if selected last_step errors = Some Async_step_interfaces then 5 else 3)
    | Inr (K, r, m, h, w, user_input, errors_kw) \<Rightarrow>
        (if input_dict user_input \<noteq> [] then 10
         else if m = Async_step_interfaces then 4 else 2))")
  apply (auto simp: selected_def steps_def check_errors_def input_dict_def split: if_splits)
  done

text \<open>The first step, which the table does not hold, and the entry point.\<close>

definition async_step_discovery ::
  "constants \<Rightarrow> sdk \<Rightarrow> handler \<Rightarrow> world \<Rightarrow> config option
    \<Rightarrow> (exc + flow_result) \<times> handler \<times> world" where
  "async_step_discovery K r h w user_input =
    (let u = input_dict user_input; step_id = ''discovery'' in
     if u \<noteq> [] then
       (case map_of u CONF_HOST of
          None \<Rightarrow> (Inl KeyError, h, w)
        | Some host \<Rightarrow>
            (case check_host r host of
               Inl ex \<Rightarrow> (Inl ex, h, w)
             | Inr ip \<Rightarrow>
                 (let errors = (if ip = None \<or> ip = Some []
                                then [(''base'', Text ''cannot_resolve_host'')] else [])
                  in if errors = []
                     then async_select_step K r h (update_in_place (self_configs h) u w)
                            (Some step_id) errors
                     else (Inr (Show_form step_id (create_form_discovery u) (Some errors)), h, w))))
     else (Inr (Show_form step_id (create_form_discovery []) (Some [])), h, w))"

definition async_step_user ::
  "constants \<Rightarrow> sdk \<Rightarrow> handler \<Rightarrow> world \<Rightarrow> config option
    \<Rightarrow> (exc + flow_result) \<times> handler \<times> world" where
  "async_step_user K r h w user_input = async_step_discovery K r h w user_input"

section \<open>Notions used in the statements\<close>

text \<open>
  \<open>frame n w w'\<close>: the first \<open>n\<close> dictionary objects of the store are in \<open>w'\<close> what they
  are in \<open>w\<close>.
\<close>

definition frame :: "nat \<Rightarrow> world \<Rightarrow> world \<Rightarrow> bool" where
  "frame n w w' \<longleftrightarrow> n \<le> length (heap w') \<and> take n (heap w') = take n (heap w)"

text \<open>
  The keys of a form, and the forms that the steps of the set-up flow show:
  \<^verbatim>\<open>async_step_interfaces\<close> builds its form from the options with the interface labels
  stored under \<^verbatim>\<open>"interfaces"\<close>.
\<close>

definition form_keys :: "schema \<Rightarrow> conf_key list" where
  "form_keys form = map field_key form"

definition wizard_forms :: "constants \<Rightarrow> config \<Rightarrow> string list \<Rightarrow> schema list" where
  "wizard_forms K user_input labels =
    [create_form_discovery user_input,
     create_form_credentials K user_input,
     create_form_device K user_input,
     create_form_operation_mode K user_input,
     create_form_times K user_input]
    @ (case create_form_interfaces
              (AList.update (Key ''interfaces'') (VList labels) user_input) [] of
         Inl ex \<Rightarrow> []
       | Inr form \<Rightarrow> [form])
    @ [create_form_name user_input]"

definition collected_keys :: "constants \<Rightarrow> config \<Rightarrow> string list \<Rightarrow> conf_key set" where
  "collected_keys K user_input labels = set (concat (map form_keys (wizard_forms K user_input labels)))"

text \<open>
  The keys that the specification lists as the surface of the wizard: host, user name
  and password, port, SSL and verify-SSL with the certificate path, the three times,
  the interfaces, and the control and monitor toggles.
\<close>

definition spec_listed_keys :: "conf_key set" where
  "spec_listed_keys =
    {CONF_HOST, CONF_USERNAME, CONF_PASSWORD, CONF_PORT, CONF_SSL, CONF_VERIFY_SSL,
     CONF_CERT_PATH, CONF_CACHE_TIME, CONF_SCAN_INTERVAL, CONF_CONSIDER_HOME,
     CONF_INTERFACES, CONF_ENABLE_CONTROL, CONF_ENABLE_MONITOR}"

section \<open>Properties of bridge.py\<close>

subsection \<open>The module's names and the sensor categories\<close>

text \<open>
  Claim C2. The name that \<^verbatim>\<open>config_flow.py\<close> imports from the bridge module,
  \<^verbatim>\<open>ARBridge\<close>, is not among the names that \<^verbatim>\<open>bridge.py\<close> binds: the import
  raises \<^verbatim>\<open>ImportError\<close>, whereas the name of the class that is defined resolves.
\<close>

theorem config_flow_import_bridge_fails:
  "config_flow_import_bridge = Inl ImportError \<and> ''ARBridge'' \<notin> set bridge_module
   \<and> import_from bridge_module ''AsusRouterBridge'' = Inr ''AsusRouterBridge''"
  by (simp add: config_flow_import_bridge_def import_from_def bridge_module_def)

text \<open>
  Claim C6. \<^verbatim>\<open>async_get_available_sensors\<close> returns, for every answer of the router, a
  dictionary whose keys are exactly the six categories CPU, RAM, network statistics,
  miscellaneous, ports and WAN, each with its list of sensors and its polling method.
\<close>

theorem async_get_available_sensors_categories:
  "set (map fst (fst (async_get_available_sensors K r self w)))
     = {SENSORS_TYPE_CPU, SENSORS_TYPE_RAM, SENSORS_TYPE_NETWORK_STAT,
        SENSORS_TYPE_MISC, SENSORS_TYPE_PORTS, SENSORS_TYPE_WAN}
   \<and> distinct (map fst (fst (async_get_available_sensors K r self w)))
   \<and> map_of (fst (async_get_available_sensors K r self w)) SENSORS_TYPE_CPU
       = Some \<lparr>sensors = fst (get_cpu_sensors r self w), entry_method = Poll_get_cpu\<rparr>
   \<and> map_of (fst (async_get_available_sensors K r self w)) SENSORS_TYPE_RAM
       = Some \<lparr>sensors = SENSORS_RAM K, entry_method = Poll_get_ram\<rparr>
   \<and> map_of (fst (async_get_available_sensors K r self w)) SENSORS_TYPE_NETWORK_STAT
       = Some \<lparr>sensors = fst (get_network_stat_sensors K r self (snd (get_cpu_sensors r self w))),
               entry_method = Poll_get_network_stat\<rparr>
   \<and> map_of (fst (async_get_available_sensors K r self w)) SENSORS_TYPE_MISC
       = Some \<lparr>sensors = SENSORS_MISC K, entry_method = Poll_get_misc\<rparr>
   \<and> map_of (fst (async_get_available_sensors K r self w)) SENSORS_TYPE_PORTS
       = Some \<lparr>sensors = fst (get_ports_sensors K r self
                   (snd (get_network_stat_sensors K r self (snd (get_cpu_sensors r self w))))),
               entry_method = Poll_get_ports\<rparr>
   \<and> map_of (fst (async_get_available_sensors K r self w)) SENSORS_TYPE_WAN
       = Some \<lparr>sensors = SENSORS_WAN K, entry_method = Poll_get_wan\<rparr>"
  by (simp add: async_get_available_sensors_def split_beta Let_def)

subsection \<open>The port loops\<close>

lemma get_ports_of_type_result:
  assumes "data (ty @ ''_total'') = Some (VInt t0)"
    and "distinct (map (\<lambda>port. ty @ ''_'' @ port) (map fst ps))"
    and "ty @ ''_total'' \<notin> set (map (\<lambda>port. ty @ ''_'' @ port) (map fst ps))"
  shows "\<exists>d. get_ports_of_type ty ps data = Inr d
      \<and> d (ty @ ''_total'') = Some (VInt (t0 + sum_list (map snd ps)))
      \<and> (\<forall>(p, v) \<in> set ps. d (ty @ ''_'' @ p) = Some (VInt v))
      \<and> (\<forall>k. k \<noteq> ty @ ''_total'' \<and> k \<notin> set (map (\<lambda>port. ty @ ''_'' @ port) (map fst ps))
            \<longrightarrow> d k = data k)"
  using assms
proof (induction ps arbitrary: data t0)
  case Nil
  then show ?case by simp
next
  case (Cons pv rest)
  obtain p v where pv: "pv = (p, v)" by (cases pv)
  let ?T = "ty @ ''_total''"
  let ?data1 = "data(ty @ ''_'' @ p \<mapsto> VInt v)"
  let ?data2 = "?data1(?T \<mapsto> VInt (t0 + v))"
  from Cons.prems pv have ne: "ty @ ''_'' @ p \<noteq> ?T" by auto
  have d1: "?data1 ?T = Some (VInt t0)" using Cons.prems(1) ne by simp
  have d2: "?data2 ?T = Some (VInt (t0 + v))" by simp
  have dist: "distinct (map (\<lambda>port. ty @ ''_'' @ port) (map fst rest))"
    and notin: "?T \<notin> set (map (\<lambda>port. ty @ ''_'' @ port) (map fst rest))"
    and fresh: "ty @ ''_'' @ p \<notin> set (map (\<lambda>port. ty @ ''_'' @ port) (map fst rest))"
    using Cons.prems pv by auto
  from Cons.IH[of ?data2 "t0 + v", OF d2 dist notin] obtain d where
    d: "get_ports_of_type ty rest ?data2 = Inr d"
      "d ?T = Some (VInt (t0 + v + sum_list (map snd rest)))"
      "\<forall>(p, v) \<in> set rest. d (ty @ ''_'' @ p) = Some (VInt v)"
      "\<forall>k. k \<noteq> ?T \<and> k \<notin> set (map (\<lambda>port. ty @ ''_'' @ port) (map fst rest)) \<longrightarrow> d k = ?data2 k"
    by blast
  have run: "get_ports_of_type ty (pv # rest) data = Inr d"
    using d(1) d1 by (simp add: pv Let_def)
  have here: "d (ty @ ''_'' @ p) = Some (VInt v)"
    using d(4) ne fresh by simp
  have frame: "\<forall>k. k \<noteq> ?T \<and> k \<notin> set (map (\<lambda>port. ty @ ''_'' @ port) (map fst (pv # rest))) \<longrightarrow> d k = data k"
    using d(4) by (simp add: pv)
  show ?case
    using run d(2) d(3) here frame by (simp add: pv add.assoc)
qed

lemma ex_set_Cons:
  "(\<exists>ty ps. ty \<in> set (a # tys) \<and> P ty ps)
     \<longleftrightarrow> (\<exists>ps. P a ps) \<or> (\<exists>ty ps. ty \<in> set tys \<and> P ty ps)"
  by auto

lemma ports_sensor_names_set:
  "k \<in> set (ports_sensor_names tys raw) \<longleftrightarrow>
     (\<exists>ty ps. ty \<in> set tys \<and> map_of raw ty = Some ps
        \<and> (k = ty \<or> k = ty @ ''_total'' \<or> k \<in> (\<lambda>port. ty @ ''_'' @ port) ` fst ` set ps))"
proof (induction tys)
  case Nil
  show ?case by simp
next
  case (Cons a tys)
  define P where "P = (\<lambda>ty ps. map_of raw ty = Some ps
        \<and> (k = ty \<or> k = ty @ ''_total'' \<or> k \<in> (\<lambda>port. ty @ ''_'' @ port) ` fst ` set ps))"
  define B where "B \<longleftrightarrow> k \<in> set (ports_sensor_names tys raw)"
  define Et where "Et \<longleftrightarrow> (\<exists>ty ps. ty \<in> set tys \<and> P ty ps)"
  define Ea where "Ea \<longleftrightarrow> (\<exists>ps. P a ps)"
  have ih: "B \<longleftrightarrow> Et" using Cons.IH by (simp add: B_def Et_def P_def)
  have split: "(\<exists>ty ps. ty \<in> set (a # tys) \<and> P ty ps) \<longleftrightarrow> Ea \<or> Et"
    unfolding Ea_def Et_def by (rule ex_set_Cons)
  have head: "k \<in> set (ports_sensor_names (a # tys) raw) \<longleftrightarrow> Ea \<or> B"
  proof (cases "map_of raw a")
    case None
    then have "\<not> Ea" by (simp add: Ea_def P_def)
    moreover from None have "k \<in> set (ports_sensor_names (a # tys) raw) \<longleftrightarrow> B"
      by (simp add: B_def)
    ultimately show ?thesis by simp
  next
    case (Some ps)
    then have "Ea \<longleftrightarrow> (k = a \<or> k = a @ ''_total''
        \<or> k \<in> (\<lambda>port. a @ ''_'' @ port) ` fst ` set ps)"
      by (simp add: Ea_def P_def)
    moreover from Some have "k \<in> set (ports_sensor_names (a # tys) raw) \<longleftrightarrow>
        (k = a \<or> k = a @ ''_total'' \<or> k \<in> (\<lambda>port. a @ ''_'' @ port) ` fst ` set ps) \<or> B"
      by (simp add: B_def image_image)
    ultimately show ?thesis by simp
  qed
  have "k \<in> set (ports_sensor_names (a # tys) raw)
      \<longleftrightarrow> (\<exists>ty ps. ty \<in> set (a # tys) \<and> P ty ps)"
    using head ih split by simp
  then show ?case by (simp only: P_def)
qed


lemma names_as_type_names:
  "k \<in> set (ports_sensor_names tys raw) \<longleftrightarrow>
     (\<exists>ty ps. ty \<in> set tys \<and> map_of raw ty = Some ps \<and> k \<in> set (type_names ty ps))"
proof -
  have "\<And>ty ps. k \<in> set (type_names ty ps) \<longleftrightarrow>
      (k = ty \<or> k = ty @ ''_total'' \<or> k \<in> (\<lambda>port. ty @ ''_'' @ port) ` fst ` set ps)"
    by (simp add: type_names_def image_image)
  then show ?thesis by (simp only: ports_sensor_names_set)
qed

lemma collision_free_at:
  assumes "collision_free tys raw" and "ty \<in> set tys" and "map_of raw ty = Some ps"
  shows "distinct (type_names ty ps)
     \<and> (\<forall>ty' \<in> set tys.
               case map_of raw ty' of
                 None \<Rightarrow> True
               | Some ps' \<Rightarrow>
                   ty' = ty \<or> set (type_names ty ps) \<inter> set (type_names ty' ps') = {})"
proof -
  from assms(1) have "\<forall>ty \<in> set tys.
       case map_of raw ty of
         None \<Rightarrow> True
       | Some ps \<Rightarrow>
           distinct (type_names ty ps)
         \<and> (\<forall>ty' \<in> set tys.
               case map_of raw ty' of
                 None \<Rightarrow> True
               | Some ps' \<Rightarrow>
                   ty' = ty \<or> set (type_names ty ps) \<inter> set (type_names ty' ps') = {})"
    by (simp only: collision_free_def)
  from bspec[OF this assms(2)] assms(3) show ?thesis by simp
qed

lemma collision_free_within:
  assumes "collision_free tys raw" and "ty \<in> set tys" and "map_of raw ty = Some ps"
  shows "distinct (type_names ty ps)"
  using collision_free_at[OF assms] by (rule conjunct1)

lemma collision_free_across:
  assumes "collision_free tys raw" and "ty \<in> set tys" and "map_of raw ty = Some ps"
    and "ty' \<in> set tys" and "map_of raw ty' = Some ps'" and "ty' \<noteq> ty"
  shows "set (type_names ty ps) \<inter> set (type_names ty' ps') = {}"
proof -
  from collision_free_at[OF assms(1,2,3)] have "\<forall>ty' \<in> set tys.
               case map_of raw ty' of
                 None \<Rightarrow> True
               | Some ps' \<Rightarrow>
                   ty' = ty \<or> set (type_names ty ps) \<inter> set (type_names ty' ps') = {}"
    by (rule conjunct2)
  from bspec[OF this assms(4)] assms(5,6) show ?thesis by simp
qed

lemma collision_free_tail:
  "collision_free (ty # tys) raw \<Longrightarrow> collision_free tys raw"
  unfolding collision_free_def
  by (auto split: option.splits)

lemma type_names_mem:
  "k \<in> set (type_names ty ps) \<longleftrightarrow>
     (k = ty \<or> k = ty @ ''_total'' \<or> k \<in> set (map (\<lambda>port. ty @ ''_'' @ port) (map fst ps)))"
  by (simp add: type_names_def)

lemma get_ports_loop_collision_free:
  assumes "collision_free tys raw"
  shows "\<exists>d. get_ports_loop tys raw data = Inr d
      \<and> (\<forall>k. k \<notin> set (ports_sensor_names tys raw) \<longrightarrow> d k = data k)
      \<and> (\<forall>ty ps. ty \<in> set tys \<and> map_of raw ty = Some ps \<longrightarrow> ports_entries ty ps data d)"
  using assms
proof (induction tys arbitrary: data)
  case Nil
  then show ?case by simp
next
  case (Cons ty tys)
  from Cons.prems have cf: "collision_free tys raw" by (rule collision_free_tail)
  show ?case
  proof (cases "map_of raw ty")
    case None
    from Cons.IH[OF cf, of data] obtain d where
      "get_ports_loop tys raw data = Inr d"
      "\<forall>k. k \<notin> set (ports_sensor_names tys raw) \<longrightarrow> d k = data k"
      "\<forall>ty ps. ty \<in> set tys \<and> map_of raw ty = Some ps \<longrightarrow> ports_entries ty ps data d"
      by blast
    with None show ?thesis by auto
  next
    case (Some ps)
    let ?T = "ty @ ''_total''"
    let ?pk = "map (\<lambda>port. ty @ ''_'' @ port) (map fst ps)"
    let ?rest = "ports_sensor_names tys raw"
    let ?S = "sum_list (map snd ps)"
    have tyin: "ty \<in> set (ty # tys)" by simp
    from collision_free_within[OF Cons.prems tyin Some]
    have dist: "distinct ?pk" "?T \<notin> set ?pk" "ty \<notin> set ?pk"
      by (simp_all add: type_names_def)
    have tyT: "ty \<noteq> ?T" by simp
    let ?data0 = "data(?T \<mapsto> VInt 0)"
    have "?data0 ?T = Some (VInt 0)" by simp
    from get_ports_of_type_result[of ?data0 ty 0 ps, OF this dist(1) dist(2)] obtain data1 where
      d1: "get_ports_of_type ty ps ?data0 = Inr data1"
        "data1 ?T = Some (VInt ?S)"
        "\<forall>(p, v) \<in> set ps. data1 (ty @ ''_'' @ p) = Some (VInt v)"
        "\<forall>k. k \<noteq> ?T \<and> k \<notin> set ?pk \<longrightarrow> data1 k = ?data0 k"
      by auto
    let ?data2 = "if 0 < ?S then data1(ty \<mapsto> VBool True) else data1"
    from Cons.IH[OF cf, of ?data2] obtain d where
      d: "get_ports_loop tys raw ?data2 = Inr d"
        "\<forall>k. k \<notin> set ?rest \<longrightarrow> d k = ?data2 k"
        "\<forall>ty' ps'. ty' \<in> set tys \<and> map_of raw ty' = Some ps' \<longrightarrow> ports_entries ty' ps' ?data2 d"
      by blast
    have run: "get_ports_loop (ty # tys) raw data = Inr d"
      using Some d1(1) d1(2) d(1) by simp
    have names: "set (ports_sensor_names (ty # tys) raw) = set (type_names ty ps) \<union> set ?rest"
      using Some by (auto simp: type_names_def)
    have frame2: "\<And>k. k \<notin> set (type_names ty ps) \<Longrightarrow> ?data2 k = data k"
      using d1(4) by (simp add: type_names_def)
    have frame: "\<forall>k. k \<notin> set (ports_sensor_names (ty # tys) raw) \<longrightarrow> d k = data k"
      using d(2) frame2 names by auto
    have other: "?data2 ty' = data ty'"
      if "ty' \<in> set tys" "map_of raw ty' = Some ps'" "ty' \<noteq> ty" for ty' ps'
    proof -
      have "ty' \<in> set (ty # tys)" using that(1) by simp
      from collision_free_across[OF Cons.prems tyin Some this that(2) that(3)]
      have "set (type_names ty ps) \<inter> set (type_names ty' ps') = {}" .
      moreover have "ty' \<in> set (type_names ty' ps')" by (simp add: type_names_def)
      ultimately have "ty' \<notin> set (type_names ty ps)" by blast
      then show ?thesis by (rule frame2)
    qed
    have own: "?data2 ty = (if 0 < ?S then Some (VBool True) else data ty)"
    proof -
      have "data1 ty = data ty" using d1(4) dist(3) tyT by simp
      then show ?thesis by simp
    qed
    have tail: "ports_entries ty' ps' data d"
      if "ty' \<in> set tys" "map_of raw ty' = Some ps'" for ty' ps'
    proof -
      have e: "ports_entries ty' ps' ?data2 d" using d(3) that by blast
      show ?thesis
      proof (cases "ty' = ty")
        case True
        with that(2) Some have "ps' = ps" by simp
        with e True own show ?thesis by (simp add: ports_entries_def split: if_splits)
      next
        case False
        from other[OF that False] e show ?thesis by (simp add: ports_entries_def)
      qed
    qed
    have head: "ports_entries ty ps data d" if "ty \<notin> set tys"
    proof -
      have fresh: "k \<notin> set ?rest" if k: "k \<in> set (type_names ty ps)" for k
      proof
        assume "k \<in> set ?rest"
        then obtain ty' ps' where t: "ty' \<in> set tys" "map_of raw ty' = Some ps'"
          "k \<in> set (type_names ty' ps')"
          using names_as_type_names[of k tys raw] by blast
        from t(1) \<open>ty \<notin> set tys\<close> have ne: "ty' \<noteq> ty" by blast
        have "ty' \<in> set (ty # tys)" using t(1) by simp
        from collision_free_across[OF Cons.prems tyin Some this t(2) ne] k t(3)
        show False by blast
      qed
      have keep: "d k = ?data2 k" if "k \<in> set (type_names ty ps)" for k
        using d(2) fresh[OF that] by blast
      have "d ?T = Some (VInt ?S)"
        using keep[of ?T] d1(2) tyT by (simp add: type_names_def)
      moreover have "\<forall>(p, v) \<in> set ps. d (ty @ ''_'' @ p) = Some (VInt v)"
      proof (clarify)
        fix p v assume pv: "(p, v) \<in> set ps"
        then have in_pk: "ty @ ''_'' @ p \<in> set ?pk" by force
        then have "d (ty @ ''_'' @ p) = ?data2 (ty @ ''_'' @ p)"
          using keep[of "ty @ ''_'' @ p"] by (simp add: type_names_def)
        also have "\<dots> = data1 (ty @ ''_'' @ p)" by simp
        also have "\<dots> = Some (VInt v)" using d1(3) pv by blast
        finally show "d (ty @ ''_'' @ p) = Some (VInt v)" .
      qed
      moreover have "d ty = (if 0 < ?S then Some (VBool True) else data ty)"
        using keep[of ty] own by (simp add: type_names_def)
      ultimately show ?thesis by (simp add: ports_entries_def)
    qed
    have all: "\<forall>ty' ps'. ty' \<in> set (ty # tys) \<and> map_of raw ty' = Some ps'
        \<longrightarrow> ports_entries ty' ps' data d"
    proof (intro allI impI)
      fix ty' ps'
      assume a: "ty' \<in> set (ty # tys) \<and> map_of raw ty' = Some ps'"
      show "ports_entries ty' ps' data d"
      proof (cases "ty' \<in> set tys")
        case True
        with a show ?thesis using tail by blast
      next
        case False
        with a have "ty' = ty" by simp
        with a Some have "ps' = ps" by simp
        from head False \<open>ty' = ty\<close> \<open>ps' = ps\<close> show ?thesis by simp
      qed
    qed
    show ?thesis
      by (rule exI[of _ d]) (intro conjI run frame all)
  qed
qed

text \<open>
  Claim C9. When the SDK returns port data and no two of the names that \<^verbatim>\<open>_get_ports\<close>
  writes coincide (\<open>collision_free\<close>), \<^verbatim>\<open>_get_ports\<close> returns a dictionary that
  holds, for every type of \<^verbatim>\<open>SENSORS_PORTS\<close> present in the data, the sum of the
  type's values under \<^verbatim>\<open>{type}_total\<close>, each port's value under \<^verbatim>\<open>{type}_{port}\<close>,
  and \<^verbatim>\<open>True\<close> under the bare type name exactly when the sum is positive (no entry
  otherwise); every entry of the dictionary is one of these, so a type that is absent
  from the data contributes none.
\<close>

theorem get_ports_entries:
  assumes "api_async_get_ports r = Inr raw"
    and "collision_free (SENSORS_PORTS K) raw"
  shows "\<exists>data. fst (get_ports K r w) = Inr data
      \<and> (\<forall>ty ps. ty \<in> set (SENSORS_PORTS K) \<and> map_of raw ty = Some ps \<longrightarrow>
            data (ty @ ''_total'') = Some (VInt (sum_list (map snd ps)))
          \<and> (\<forall>(port, v) \<in> set ps. data (ty @ ''_'' @ port) = Some (VInt v))
          \<and> data ty = (if 0 < sum_list (map snd ps) then Some (VBool True) else None))
      \<and> (\<forall>k. data k \<noteq> None \<longrightarrow>
            (\<exists>ty ps. ty \<in> set (SENSORS_PORTS K) \<and> map_of raw ty = Some ps
               \<and> (k = ty \<or> k = ty @ ''_total''
                    \<or> k \<in> (\<lambda>port. ty @ ''_'' @ port) ` fst ` set ps)))"
proof -
  from get_ports_loop_collision_free[OF assms(2), of Map.empty] obtain d where
    all: "get_ports_loop (SENSORS_PORTS K) raw Map.empty = Inr d
      \<and> (\<forall>k. k \<notin> set (ports_sensor_names (SENSORS_PORTS K) raw) \<longrightarrow> d k = Map.empty k)
      \<and> (\<forall>ty ps. ty \<in> set (SENSORS_PORTS K) \<and> map_of raw ty = Some ps
          \<longrightarrow> ports_entries ty ps Map.empty d)" ..
  note d1 = all[THEN conjunct1]
  note d2 = all[THEN conjunct2, THEN conjunct1]
  note d3 = all[THEN conjunct2, THEN conjunct2]
  have run: "fst (get_ports K r w) = Inr d"
    using assms(1) d1 by (simp add: get_ports_def Let_def)
  have entries: "\<forall>ty ps. ty \<in> set (SENSORS_PORTS K) \<and> map_of raw ty = Some ps \<longrightarrow>
            d (ty @ ''_total'') = Some (VInt (sum_list (map snd ps)))
          \<and> (\<forall>(port, v) \<in> set ps. d (ty @ ''_'' @ port) = Some (VInt v))
          \<and> d ty = (if 0 < sum_list (map snd ps) then Some (VBool True) else None)"
  proof (intro allI impI)
    fix ty ps
    assume "ty \<in> set (SENSORS_PORTS K) \<and> map_of raw ty = Some ps"
    with d3 have "ports_entries ty ps Map.empty d" by blast
    then show "d (ty @ ''_total'') = Some (VInt (sum_list (map snd ps)))
          \<and> (\<forall>(port, v) \<in> set ps. d (ty @ ''_'' @ port) = Some (VInt v))
          \<and> d ty = (if 0 < sum_list (map snd ps) then Some (VBool True) else None)"
      by (simp add: ports_entries_def)
  qed
  have only: "\<forall>k. d k \<noteq> None \<longrightarrow>
            (\<exists>ty ps. ty \<in> set (SENSORS_PORTS K) \<and> map_of raw ty = Some ps
               \<and> (k = ty \<or> k = ty @ ''_total''
                    \<or> k \<in> (\<lambda>port. ty @ ''_'' @ port) ` fst ` set ps))"
  proof (intro allI impI)
    fix k
    assume k: "d k \<noteq> None"
    have "k \<in> set (ports_sensor_names (SENSORS_PORTS K) raw)"
    proof (rule ccontr)
      assume "k \<notin> set (ports_sensor_names (SENSORS_PORTS K) raw)"
      with d2 have "d k = Map.empty k" by blast
      with k show False by simp
    qed
    then show "\<exists>ty ps. ty \<in> set (SENSORS_PORTS K) \<and> map_of raw ty = Some ps
               \<and> (k = ty \<or> k = ty @ ''_total''
                    \<or> k \<in> (\<lambda>port. ty @ ''_'' @ port) ` fst ` set ps)"
      by (rule ports_sensor_names_set[THEN iffD1])
  qed
  show ?thesis
    by (rule exI[of _ d]) (intro conjI run entries only)
qed

text \<open>The claim at a router with two LAN ports, one of them up, and an idle WAN port.\<close>

theorem get_ports_entries_witness:
  "collision_free (SENSORS_PORTS sample_constants)
       [(''LAN'', [(''1'', 1000), (''2'', 0)]), (''WAN'', [(''0'', 0)])]
   \<and> (\<exists>data. fst (get_ports sample_constants sample_sdk sample_world) = Inr data
        \<and> data ''LAN_total'' = Some (VInt 1000)
        \<and> data ''LAN_1'' = Some (VInt 1000)
        \<and> data ''LAN_2'' = Some (VInt 0)
        \<and> data ''LAN'' = Some (VBool True)
        \<and> data ''WAN_total'' = Some (VInt 0)
        \<and> data ''WAN'' = None
        \<and> data ''USB'' = None)"
proof -
  let ?raw = "[(''LAN'', [(''1'', 1000), (''2'', 0)]), (''WAN'', [(''0'', 0::int)])]"
  have a: "api_async_get_ports sample_sdk = Inr ?raw" by (simp add: sample_sdk_def)
  have b: "collision_free (SENSORS_PORTS sample_constants) ?raw"
    by (simp add: sample_constants_def collision_free_def type_names_def)
  from get_ports_entries[OF a b, of sample_world] obtain data where
    all: "fst (get_ports sample_constants sample_sdk sample_world) = Inr data
      \<and> (\<forall>ty ps. ty \<in> set (SENSORS_PORTS sample_constants) \<and> map_of ?raw ty = Some ps \<longrightarrow>
            data (ty @ ''_total'') = Some (VInt (sum_list (map snd ps)))
          \<and> (\<forall>(port, v) \<in> set ps. data (ty @ ''_'' @ port) = Some (VInt v))
          \<and> data ty = (if 0 < sum_list (map snd ps) then Some (VBool True) else None))
      \<and> (\<forall>k. data k \<noteq> None \<longrightarrow>
            (\<exists>ty ps. ty \<in> set (SENSORS_PORTS sample_constants) \<and> map_of ?raw ty = Some ps
               \<and> (k = ty \<or> k = ty @ ''_total''
                    \<or> k \<in> (\<lambda>port. ty @ ''_'' @ port) ` fst ` set ps)))" ..
  note run = all[THEN conjunct1]
  note entries = all[THEN conjunct2, THEN conjunct1]
  note only = all[THEN conjunct2, THEN conjunct2]
  have lan: "''LAN'' \<in> set (SENSORS_PORTS sample_constants)
      \<and> map_of ?raw ''LAN'' = Some [(''1'', 1000), (''2'', 0)]"
    by (simp add: sample_constants_def)
  have wan: "''WAN'' \<in> set (SENSORS_PORTS sample_constants)
      \<and> map_of ?raw ''WAN'' = Some [(''0'', 0)]"
    by (simp add: sample_constants_def)
  note e_lan = entries[rule_format, OF lan]
  note e_wan = entries[rule_format, OF wan]
  have l: "data ''LAN_total'' = Some (VInt 1000)" "data ''LAN_1'' = Some (VInt 1000)"
    "data ''LAN_2'' = Some (VInt 0)" "data ''LAN'' = Some (VBool True)"
    using e_lan by simp_all
  have n: "data ''WAN_total'' = Some (VInt 0)" "data ''WAN'' = None"
    using e_wan by simp_all
  have usb: "data ''USB'' = None"
  proof (rule ccontr)
    assume "data ''USB'' \<noteq> None"
    with only obtain ty ps where
      ty: "ty \<in> set (SENSORS_PORTS sample_constants)" and ps: "map_of ?raw ty = Some ps"
      and k: "''USB'' = ty \<or> ''USB'' = ty @ ''_total''
         \<or> ''USB'' \<in> (\<lambda>port. ty @ ''_'' @ port) ` fst ` set ps"
      by blast
    from ty have "ty = ''WAN'' \<or> ty = ''LAN''" by (simp add: sample_constants_def)
    then show False
    proof
      assume t: "ty = ''WAN''"
      with ps have "ps = [(''0'', 0)]" by simp
      with k t show False by simp
    next
      assume t: "ty = ''LAN''"
      with ps have "ps = [(''1'', 1000), (''2'', 0)]" by simp
      with k t show False by simp
    qed
  qed
  show ?thesis using b run l n usb by simp
qed

text \<open>
  Without the condition the totals can be wrong: a LAN port named \<^verbatim>\<open>total\<close> with value 5
  beside a port \<^verbatim>\<open>1\<close> with value 2 is written to \<^verbatim>\<open>LAN_total\<close> and then added to it,
  so that \<^verbatim>\<open>LAN_total\<close> ends as 12, while the values sum to 7.
\<close>

theorem get_ports_total_collision:
  "\<exists>data. fst (get_ports sample_constants
                  (sample_sdk\<lparr>api_async_get_ports := Inr [(''LAN'', [(''total'', 5), (''1'', 2)])]\<rparr>)
                  sample_world) = Inr data
     \<and> data ''LAN_total'' = Some (VInt 12)
     \<and> data ''LAN_1'' = Some (VInt 2)
     \<and> sum_list (map snd [(''total'', 5), (''1'', 2::int)]) = 7"
  by (simp add: get_ports_def sample_constants_def sample_sdk_def Let_def)

section \<open>Properties of config_flow.py\<close>

subsection \<open>The caller's dictionaries\<close>

lemma frame_refl: "n \<le> length (heap w) \<Longrightarrow> frame n w w"
  by (simp add: frame_def)

lemma frame_emit: "frame n w w1 \<Longrightarrow> frame n w (emit e w1)"
  by (simp add: frame_def emit_def)

lemma frame_store: "frame n w w1 \<Longrightarrow> n \<le> a \<Longrightarrow> frame n w (store a d w1)"
  by (simp add: frame_def store_def)

lemma frame_update_in_place: "frame n w w1 \<Longrightarrow> n \<le> a \<Longrightarrow> frame n w (update_in_place a e w1)"
  by (simp add: update_in_place_def frame_store)

lemma frame_dict_copy:
  "frame n w w1 \<Longrightarrow> frame n w (snd (dict_copy c w1)) \<and> n \<le> fst (dict_copy c w1)"
  by (auto simp: frame_def dict_copy_def alloc_def)

lemma frame_deref: "frame n w w1 \<Longrightarrow> a < n \<Longrightarrow> deref w1 a = deref w a"
  unfolding frame_def deref_def
  by (metis nth_take)

lemma frame_get_api: "frame n w w1 \<Longrightarrow> frame n w (snd (get_api c w1))"
  by (simp add: get_api_def frame_emit)

lemma frame_init:
  assumes "frame n w w1"
  shows "frame n w (snd (AsusRouterBridgeHTTP_init c opts w1))"
proof -
  let ?own = "fst (dict_copy c w1)"
  let ?wa = "snd (dict_copy c w1)"
  from frame_dict_copy[OF assms] have fa: "frame n w ?wa" and le: "n \<le> ?own" by simp_all
  let ?wb = "update_in_place ?own (options_dict opts ?wa) ?wa"
  have fb: "frame n w ?wb" using fa le by (rule frame_update_in_place)
  have fc: "frame n w (snd (get_api (deref ?wb ?own) ?wb))" using fb by (rule frame_get_api)
  show ?thesis
    using fc
    by (simp add: AsusRouterBridgeHTTP_init_def Let_def split_beta split: sum.splits option.splits)
qed

lemma frame_ARBridge:
  "frame n w w1 \<Longrightarrow> frame n w (snd (ARBridge c opts w1))"
  unfolding ARBridge_def get_bridge_def by (rule frame_init)

lemma frame_async_connect: "frame n w w1 \<Longrightarrow> frame n w (snd (async_connect r api w1))"
  by (simp add: async_connect_def Let_def frame_emit split: option.splits sum.splits)

lemma frame_async_clean: "frame n w w1 \<Longrightarrow> frame n w (snd (async_clean r api w1))"
  by (simp add: async_clean_def Let_def frame_emit split: option.splits)

lemma frame_async_disconnect: "frame n w w1 \<Longrightarrow> frame n w (snd (async_disconnect r api w1))"
  by (simp add: async_disconnect_def Let_def frame_emit split: option.splits)

lemma frame_pop_items: "frame n w w1 \<Longrightarrow> n \<le> a \<Longrightarrow> frame n w (snd (pop_items ks a w1))"
  by (induction ks a w1 rule: pop_items.induct) (simp_all add: frame_store)

lemma frame_setup:
  assumes "frame n w w0"
  shows "frame n w (snd (check_connection_setup K c opts s w0))
     \<and> (\<forall>ctu host st api.
           fst (check_connection_setup K c opts s w0) = Inr (ctu, host, st, api) \<longrightarrow> n \<le> ctu)"
proof -
  let ?ctu = "fst (dict_copy c w0)"
  let ?wa = "snd (dict_copy c w0)"
  from frame_dict_copy[OF assms] have fa: "frame n w ?wa" and le: "n \<le> ?ctu" by simp_all
  let ?wb = "update_in_place ?ctu (options_dict opts ?wa) ?wa"
  have fb: "frame n w ?wb" using fa le by (rule frame_update_in_place)
  have fe: "\<And>e p. frame n w (emit e (update_in_place ?ctu p ?wb))"
    using fb le by (simp add: frame_emit frame_update_in_place)
  have g1: "\<And>e p. frame n w (snd (ARBridge ?ctu None (emit e (update_in_place ?ctu p ?wb))))"
    using fe by (rule frame_ARBridge)
  have g2: "frame n w (snd (ARBridge ?ctu None ?wb))"
    using fb by (rule frame_ARBridge)
  show ?thesis
    using fb g1 g2 le
    by (auto simp: check_connection_setup_def Let_def split_beta
             split: sum.splits option.splits if_splits)
qed

lemma frame_probe:
  assumes "frame n w w1" and "n \<le> ctu"
  shows "frame n w (snd (check_connection_probe K r c s (ctu, host, st, api) w1))"
proof -
  note rules = frame_async_clean frame_async_disconnect frame_async_connect frame_emit
  have pop: "\<And>ks wa. frame n w wa \<Longrightarrow> frame n w (snd (pop_items ks ctu wa))"
    using assms(2) by (simp add: frame_pop_items)
  show ?thesis
    unfolding check_connection_probe_def
    using assms(1)
    by (simp add: split_beta rules pop split: sum.splits)
qed

lemma frame_check_connection:
  assumes "n \<le> length (heap w)"
  shows "frame n w (snd (async_check_connection K r c opts s w))"
proof -
  let ?su = "check_connection_setup K c opts s w"
  from frame_setup[OF frame_refl[OF assms], of K c opts s]
  have f1: "frame n w (snd ?su)"
    and le: "\<forall>ctu host st api. fst ?su = Inr (ctu, host, st, api) \<longrightarrow> n \<le> ctu"
    by simp_all
  show ?thesis
  proof (cases "fst ?su")
    case (Inl out)
    with f1 show ?thesis by (simp add: async_check_connection_def split_beta)
  next
    case (Inr locals)
    obtain ctu host st api where l: "locals = (ctu, host, st, api)" by (cases locals)
    with Inr le have "n \<le> ctu" by simp
    from frame_probe[OF f1 this] show ?thesis
      using Inr l by (simp add: async_check_connection_def split_beta)
  qed
qed

text \<open>
  Claim C10. \<^verbatim>\<open>_async_check_connection\<close> changes no dictionary object that exists when it
  is called: whatever the arguments, the router's answers and the outcome, every such
  object holds after the call the entries it held before. The caller's \<^verbatim>\<open>configs\<close> and
  \<^verbatim>\<open>options\<close> are such objects (also when they are one object); the function writes
  to its own copy of \<^verbatim>\<open>configs\<close> and to the bridge's copy of that copy only. The shared
  default of \<^verbatim>\<open>options\<close> is only read.
\<close>

theorem check_connection_frame:
  assumes "a < length (heap w)"
  shows "deref (snd (async_check_connection K r configs options simple w)) a = deref w a"
proof -
  have "frame (length (heap w)) w (snd (async_check_connection K r configs options simple w))"
    by (rule frame_check_connection) simp
  then show ?thesis using assms by (simp add: frame_deref)
qed

text \<open>
  A successful check with \<^verbatim>\<open>configs\<close> at address 0 and \<^verbatim>\<open>options\<close> at address 1: the
  result refers to the working copy at address 2, and both arguments are as before.
\<close>

theorem check_connection_frame_witness:
  "0 < length (heap sample_world) \<and> 1 < length (heap sample_world)
   \<and> fst (async_check_connection sample_constants sample_sdk 0 (Some 1) False sample_world)
     = Inr \<lparr>result_errors = None, result_unique_id = Some (Some ''SN1''), result_configs = Some 2\<rparr>
   \<and> deref (snd (async_check_connection sample_constants sample_sdk 0 (Some 1) False sample_world)) 0
     = [(CONF_HOST, VStr ''router'')]
   \<and> deref (snd (async_check_connection sample_constants sample_sdk 0 (Some 1) False sample_world)) 1
     = [(CONF_USERNAME, VStr ''admin''), (CONF_PASSWORD, VStr ''secret''),
        (CONF_PORT, VInt 80), (CONF_SSL, VBool False), (CONF_VERIFY_SSL, VBool False)]"
proof -
  have a: "0 < length (heap sample_world)" "1 < length (heap sample_world)"
    by (simp_all add: sample_world_def)
  have b: "deref sample_world 0 = [(CONF_HOST, VStr ''router'')]"
    "deref sample_world 1
     = [(CONF_USERNAME, VStr ''admin''), (CONF_PASSWORD, VStr ''secret''),
        (CONF_PORT, VInt 80), (CONF_SSL, VBool False), (CONF_VERIFY_SSL, VBool False)]"
    by (simp_all add: sample_world_def deref_def)
  have c: "fst (async_check_connection sample_constants sample_sdk 0 (Some 1) False sample_world)
     = Inr \<lparr>result_errors = None, result_unique_id = Some (Some ''SN1''), result_configs = Some 2\<rparr>"
    by (simp add: async_check_connection_def check_connection_setup_def check_connection_probe_def
         sample_constants_def sample_world_def sample_sdk_def dict_copy_def
         alloc_def update_in_place_def store_def deref_def options_dict_def Let_def ARBridge_def
         get_bridge_def AsusRouterBridgeHTTP_init_def get_api_def dict_in_def emit_def
         async_connect_def async_clean_def async_disconnect_def get_serial_def)
  from check_connection_frame[OF a(1), of sample_constants sample_sdk 0 "Some 1" False]
       check_connection_frame[OF a(2), of sample_constants sample_sdk 0 "Some 1" False] a b c
  show ?thesis by (simp only: simp_thms)
qed

subsection \<open>The early return\<close>

lemma working_copy:
  assumes "case options of None \<Rightarrow> True | Some opt \<Rightarrow> opt < length (heap w)"
  shows "deref (update_in_place (fst (dict_copy configs w))
                 (options_dict options (snd (dict_copy configs w))) (snd (dict_copy configs w)))
           (fst (dict_copy configs w))
         = dict_update (deref w configs) (options_dict options w)"
    and "trace (update_in_place (fst (dict_copy configs w))
                 (options_dict options (snd (dict_copy configs w))) (snd (dict_copy configs w)))
         = trace w"
proof -
  have o: "options_dict options (snd (dict_copy configs w)) = options_dict options w"
    using assms
    by (cases options) (simp_all add: options_dict_def dict_copy_def alloc_def deref_def nth_append)
  show "deref (update_in_place (fst (dict_copy configs w))
                 (options_dict options (snd (dict_copy configs w))) (snd (dict_copy configs w)))
           (fst (dict_copy configs w))
         = dict_update (deref w configs) (options_dict options w)"
    unfolding o
    by (simp add: update_in_place_def store_def dict_copy_def alloc_def deref_def)
  show "trace (update_in_place (fst (dict_copy configs w))
                 (options_dict options (snd (dict_copy configs w))) (snd (dict_copy configs w)))
         = trace w"
    by (simp add: update_in_place_def store_def dict_copy_def alloc_def)
qed

text \<open>
  Claim C8. If \<^verbatim>\<open>CONF_HOST\<close> is not a key of \<^verbatim>\<open>configs\<close> updated with \<^verbatim>\<open>options\<close>,
  \<^verbatim>\<open>_async_check_connection\<close> returns the dictionary \<^verbatim>\<open>{"errors": RESULT_ERROR}\<close>, and
  the trace is what it was: no SDK object has been made, no connection attempted and
  nothing logged. \<^verbatim>\<open>options\<close> is the default or refers to an object of the store.
\<close>

theorem check_connection_without_host:
  assumes "case options of None \<Rightarrow> True | Some opt \<Rightarrow> opt < length (heap w)"
    and "\<not> dict_in CONF_HOST (dict_update (deref w configs) (options_dict options w))"
  shows "fst (async_check_connection K r configs options simple w)
           = Inr (errors_result RESULT_ERROR)
       \<and> trace (snd (async_check_connection K r configs options simple w)) = trace w"
proof -
  from assms(2) have none: "map_of (dict_update (deref w configs) (options_dict options w)) CONF_HOST = None"
    by (simp add: dict_in_def map_of_eq_None_iff)
  note wc = working_copy[OF assms(1)]
  have "check_connection_setup K configs options simple w
      = (Inl (Inr (errors_result RESULT_ERROR)),
         update_in_place (fst (dict_copy configs w))
           (options_dict options (snd (dict_copy configs w))) (snd (dict_copy configs w)))"
    by (simp add: check_connection_setup_def split_beta Let_def wc(1) none)
  then show ?thesis
    by (simp add: async_check_connection_def wc(2))
qed

text \<open>The check of a configuration that holds the credentials, but no host.\<close>

theorem check_connection_without_host_witness:
  "\<not> dict_in CONF_HOST (dict_update (deref sample_world 1) (options_dict (Some 1) sample_world))
   \<and> fst (async_check_connection sample_constants sample_sdk 1 (Some 1) True sample_world)
           = Inr \<lparr>result_errors = Some RESULT_ERROR, result_unique_id = None, result_configs = None\<rparr>
   \<and> trace (snd (async_check_connection sample_constants sample_sdk 1 (Some 1) True sample_world))
           = []"
proof -
  have b: "case Some (1::nat) of None \<Rightarrow> True | Some opt \<Rightarrow> opt < length (heap sample_world)"
    by (simp add: sample_world_def)
  have c: "\<not> dict_in CONF_HOST (dict_update (deref sample_world 1) (options_dict (Some 1) sample_world))"
    by (simp add: sample_world_def deref_def options_dict_def dict_in_def)
  have d: "trace sample_world = []"
    by (simp_all add: sample_world_def)
  from check_connection_without_host[OF b c, of sample_constants sample_sdk True] c d
  show ?thesis by (simp only: simp_thms errors_result_def)
qed

subsection \<open>Exceptions of the connection attempt\<close>

lemma connect_failed_code:
  "fst (connect_failed simple host ex)
     = (case ex of
          AsusRouterLoginError \<Rightarrow> RESULT_WRONG_CREDENTIALS
        | AsusRouterLoginBlockError t \<Rightarrow> RESULT_LOGIN_BLOCKED
        | AsusRouterConnectionError m \<Rightarrow> RESULT_CONNECTION_REFUSED
        | _ \<Rightarrow> RESULT_UNKNOWN)"
  by (cases ex) simp_all

lemma probe_connect_raises:
  assumes "fst (async_connect r api w1) = Inl ex"
  shows "fst (check_connection_probe K r configs simple (configs_to_use, host, step_type, api) w1)
    = (case api_async_cleanup r of
         None \<Rightarrow> Inr (errors_result (fst (connect_failed simple host ex)))
       | Some ex' \<Rightarrow> Inl ex')"
  using assms
  by (simp add: check_connection_probe_def split_beta async_clean_def Let_def
           split: sum.splits option.splits)

text \<open>
  Claim C1. When \<^verbatim>\<open>_async_check_connection\<close> has made the bridge and the bridge's
  \<^verbatim>\<open>async_connect\<close> raises \<open>ex\<close>, the exception is caught and mapped by its type:
  \<^verbatim>\<open>AsusRouterLoginError\<close> to \<^verbatim>\<open>RESULT_WRONG_CREDENTIALS\<close>, \<^verbatim>\<open>AsusRouterLoginBlockError\<close>
  to \<^verbatim>\<open>RESULT_LOGIN_BLOCKED\<close>, \<^verbatim>\<open>AsusRouterConnectionError\<close> to
  \<^verbatim>\<open>RESULT_CONNECTION_REFUSED\<close>, anything else to \<^verbatim>\<open>RESULT_UNKNOWN\<close>. The function
  returns \<^verbatim>\<open>{"errors": code}\<close> if the cleanup of the \<^verbatim>\<open>finally\<close> clause completes; if
  the cleanup raises, its exception reaches the caller in place of the result. \<open>ex\<close>
  itself never reaches the caller.
\<close>

theorem check_connection_maps_exception:
  assumes "check_connection_setup K configs options simple w
             = (Inr (configs_to_use, host, step_type, api), w1)"
    and "fst (async_connect r api w1) = Inl ex"
  shows "fst (async_check_connection K r configs options simple w)
     = (case api_async_cleanup r of
          None \<Rightarrow>
            Inr (errors_result
                   (case ex of
                      AsusRouterLoginError \<Rightarrow> RESULT_WRONG_CREDENTIALS
                    | AsusRouterLoginBlockError t \<Rightarrow> RESULT_LOGIN_BLOCKED
                    | AsusRouterConnectionError m \<Rightarrow> RESULT_CONNECTION_REFUSED
                    | _ \<Rightarrow> RESULT_UNKNOWN))
        | Some ex' \<Rightarrow> Inl ex')"
proof -
  have "fst (async_check_connection K r configs options simple w)
      = (case api_async_cleanup r of
           None \<Rightarrow> Inr (errors_result (fst (connect_failed simple host ex)))
         | Some ex' \<Rightarrow> Inl ex')"
    using assms(1) probe_connect_raises[OF assms(2), of K configs simple configs_to_use host step_type]
    by (simp add: async_check_connection_def)
  then show ?thesis
    by (simp only: connect_failed_code)
qed

text \<open>The four kinds of exception at a router whose cleanup completes.\<close>

theorem check_connection_maps_exception_witness:
  "fst (async_check_connection sample_constants
          (sample_sdk\<lparr>api_async_connect := Some AsusRouterLoginError\<rparr>) 0 (Some 1) False sample_world)
     = Inr (errors_result RESULT_WRONG_CREDENTIALS)
   \<and> fst (async_check_connection sample_constants
          (sample_sdk\<lparr>api_async_connect := Some (AsusRouterLoginBlockError 300)\<rparr>) 0 (Some 1) False sample_world)
     = Inr (errors_result RESULT_LOGIN_BLOCKED)
   \<and> fst (async_check_connection sample_constants
          (sample_sdk\<lparr>api_async_connect := Some (AsusRouterConnectionError ''refused'')\<rparr>) 0 (Some 1) False sample_world)
     = Inr (errors_result RESULT_CONNECTION_REFUSED)
   \<and> fst (async_check_connection sample_constants
          (sample_sdk\<lparr>api_async_connect := Some (OSError ''timed out'')\<rparr>) 0 (Some 1) False sample_world)
     = Inr (errors_result RESULT_UNKNOWN)"
proof -
  let ?r1 = "sample_sdk\<lparr>api_async_connect := Some AsusRouterLoginError\<rparr>"
  let ?r2 = "sample_sdk\<lparr>api_async_connect := Some (AsusRouterLoginBlockError 300)\<rparr>"
  let ?r3 = "sample_sdk\<lparr>api_async_connect := Some (AsusRouterConnectionError ''refused'')\<rparr>"
  let ?r4 = "sample_sdk\<lparr>api_async_connect := Some (OSError ''timed out'')\<rparr>"
  have "\<exists>ctu host st api w1.
      check_connection_setup sample_constants 0 (Some 1) False sample_world
        = (Inr (ctu, host, st, api), w1)"
    by (simp add: check_connection_setup_def sample_constants_def sample_world_def dict_copy_def
         alloc_def update_in_place_def store_def deref_def options_dict_def Let_def ARBridge_def
         get_bridge_def AsusRouterBridgeHTTP_init_def get_api_def dict_in_def emit_def)
  then obtain ctu host st api w1 where
    su: "check_connection_setup sample_constants 0 (Some 1) False sample_world
        = (Inr (ctu, host, st, api), w1)"
    by blast
  have e1: "fst (async_connect ?r1 api w1) = Inl AsusRouterLoginError"
    by (simp add: async_connect_def reraise_connect_def Let_def sample_sdk_def)
  have e2: "fst (async_connect ?r2 api w1) = Inl (AsusRouterLoginBlockError 300)"
    by (simp add: async_connect_def reraise_connect_def Let_def sample_sdk_def)
  have e3: "fst (async_connect ?r3 api w1) = Inl (AsusRouterConnectionError ''refused'')"
    by (simp add: async_connect_def reraise_connect_def Let_def sample_sdk_def)
  have e4: "fst (async_connect ?r4 api w1) = Inl (ConfigEntryNotReady (OSError ''timed out''))"
    by (simp add: async_connect_def reraise_connect_def Let_def sample_sdk_def)
  have c: "api_async_cleanup ?r1 = None" "api_async_cleanup ?r2 = None"
    "api_async_cleanup ?r3 = None" "api_async_cleanup ?r4 = None"
    by (simp_all add: sample_sdk_def)
  from check_connection_maps_exception[OF su e1]
  have a1: "fst (async_check_connection sample_constants ?r1 0 (Some 1) False sample_world)
     = Inr (errors_result RESULT_WRONG_CREDENTIALS)"
    by (simp add: c)
  from check_connection_maps_exception[OF su e2]
  have a2: "fst (async_check_connection sample_constants ?r2 0 (Some 1) False sample_world)
     = Inr (errors_result RESULT_LOGIN_BLOCKED)"
    by (simp add: c)
  from check_connection_maps_exception[OF su e3]
  have a3: "fst (async_check_connection sample_constants ?r3 0 (Some 1) False sample_world)
     = Inr (errors_result RESULT_CONNECTION_REFUSED)"
    by (simp add: c)
  from check_connection_maps_exception[OF su e4]
  have a4: "fst (async_check_connection sample_constants ?r4 0 (Some 1) False sample_world)
     = Inr (errors_result RESULT_UNKNOWN)"
    by (simp add: c)
  from a1 a2 a3 a4 show ?thesis by simp
qed

text \<open>
  A router that rejects the credentials and whose cleanup fails: the caller gets the
  exception of the cleanup, not a result with \<^verbatim>\<open>RESULT_WRONG_CREDENTIALS\<close>.
\<close>

theorem check_connection_cleanup_raises:
  "fst (async_check_connection sample_constants
          (sample_sdk\<lparr>api_async_connect := Some AsusRouterLoginError,
                      api_async_cleanup := Some (OSError ''session is closed'')\<rparr>)
          0 (Some 1) False sample_world)
     = Inl (OSError ''session is closed'')"
  by (simp add: async_check_connection_def check_connection_setup_def check_connection_probe_def
         sample_constants_def sample_world_def sample_sdk_def dict_copy_def
         alloc_def update_in_place_def store_def deref_def options_dict_def Let_def ARBridge_def
         get_bridge_def AsusRouterBridgeHTTP_init_def get_api_def dict_in_def emit_def
         async_connect_def reraise_connect_def async_clean_def)

subsection \<open>Defaults of the sensor discovery\<close>





subsection \<open>The step table\<close>



subsection \<open>The keys of the forms\<close>

lemma interfaces_form_keys:
  "create_form_interfaces (AList.update (Key ''interfaces'') (VList labels) u) dflt
     = Inr [mk_field Required CONF_INTERFACES (VList dflt)
              (T_multi_select (dict_update [] (map (\<lambda>k. (k, k)) labels)))]"
  by (simp add: create_form_interfaces_def update_conv')

text \<open>
  Claim C5. The keys that the forms of the set-up flow collect: the host (discovery);
  user name, password and SSL (credentials); user name, password, port, SSL, verify-SSL
  and certificate path (device); the control toggle alone (operation mode); cache time,
  scan interval and consider-home (times); the interfaces; and the name. Together these
  are the listed keys without the monitor toggle and with the name.
\<close>

theorem wizard_form_keys:
  "form_keys (create_form_discovery u) = [CONF_HOST]
   \<and> form_keys (create_form_credentials K u) = [CONF_USERNAME, CONF_PASSWORD, CONF_SSL]
   \<and> form_keys (create_form_device K u)
       = [CONF_USERNAME, CONF_PASSWORD, CONF_PORT, CONF_SSL, CONF_VERIFY_SSL, CONF_CERT_PATH]
   \<and> form_keys (create_form_operation_mode K u) = [CONF_ENABLE_CONTROL]
   \<and> form_keys (create_form_times K u)
       = [CONF_CACHE_TIME, CONF_SCAN_INTERVAL, CONF_CONSIDER_HOME]
   \<and> map_sum id form_keys
        (create_form_interfaces (AList.update (Key ''interfaces'') (VList labels) u) [])
       = Inr [CONF_INTERFACES]
   \<and> form_keys (create_form_name u) = [CONF_NAME]
   \<and> collected_keys K u labels
       = {CONF_HOST, CONF_USERNAME, CONF_PASSWORD, CONF_PORT, CONF_SSL, CONF_VERIFY_SSL,
          CONF_CERT_PATH, CONF_ENABLE_CONTROL, CONF_CACHE_TIME, CONF_SCAN_INTERVAL,
          CONF_CONSIDER_HOME, CONF_INTERFACES, CONF_NAME}"
proof -
  have forms: "form_keys (create_form_discovery u) = [CONF_HOST]"
    "form_keys (create_form_credentials K u) = [CONF_USERNAME, CONF_PASSWORD, CONF_SSL]"
    "form_keys (create_form_device K u)
       = [CONF_USERNAME, CONF_PASSWORD, CONF_PORT, CONF_SSL, CONF_VERIFY_SSL, CONF_CERT_PATH]"
    "form_keys (create_form_operation_mode K u) = [CONF_ENABLE_CONTROL]"
    "form_keys (create_form_times K u)
       = [CONF_CACHE_TIME, CONF_SCAN_INTERVAL, CONF_CONSIDER_HOME]"
    "form_keys (create_form_name u) = [CONF_NAME]"
    by (simp_all add: form_keys_def mk_field_def create_form_discovery_def
          create_form_credentials_def create_form_device_def create_form_operation_mode_def
          create_form_times_def create_form_name_def)
  have ifc: "map_sum id form_keys
        (create_form_interfaces (AList.update (Key ''interfaces'') (VList labels) u) [])
       = Inr [CONF_INTERFACES]"
    by (simp add: interfaces_form_keys form_keys_def mk_field_def)
  have all: "collected_keys K u labels
       = {CONF_HOST, CONF_USERNAME, CONF_PASSWORD, CONF_PORT, CONF_SSL, CONF_VERIFY_SSL,
          CONF_CERT_PATH, CONF_ENABLE_CONTROL, CONF_CACHE_TIME, CONF_SCAN_INTERVAL,
          CONF_CONSIDER_HOME, CONF_INTERFACES, CONF_NAME}"
    unfolding collected_keys_def wizard_forms_def interfaces_form_keys
    by (simp add: forms) (auto simp: form_keys_def mk_field_def)
  show ?thesis using forms ifc all by simp
qed

text \<open>
  The monitor toggle is among the listed keys and in no form: the form of the operation
  mode has the control toggle as its only field.
\<close>

theorem monitor_toggle_not_collected:
  "CONF_ENABLE_MONITOR \<in> spec_listed_keys
   \<and> CONF_ENABLE_MONITOR \<notin> collected_keys sample_constants [] [''WAN'']
   \<and> form_keys (create_form_operation_mode sample_constants []) = [CONF_ENABLE_CONTROL]
   \<and> collected_keys sample_constants [] [''WAN''] \<noteq> spec_listed_keys"
proof -
  have a: "CONF_ENABLE_MONITOR \<in> spec_listed_keys" by (simp add: spec_listed_keys_def)
  have b: "CONF_ENABLE_MONITOR \<notin> collected_keys sample_constants [] [''WAN'']"
    unfolding collected_keys_def wizard_forms_def interfaces_form_keys
    by (simp add: form_keys_def mk_field_def create_form_discovery_def
          create_form_credentials_def create_form_device_def create_form_operation_mode_def
          create_form_times_def create_form_name_def)
  have c: "form_keys (create_form_operation_mode sample_constants []) = [CONF_ENABLE_CONTROL]"
    by (simp add: form_keys_def mk_field_def create_form_operation_mode_def)
  from a b have d: "collected_keys sample_constants [] [''WAN''] \<noteq> spec_listed_keys" by blast
  show ?thesis using a b c d by simp
qed

subsection \<open>The branches of the credentials step\<close>

lemma connect_failed_codes:
  "fst (connect_failed simple host ex)
     \<in> {RESULT_WRONG_CREDENTIALS, RESULT_LOGIN_BLOCKED, RESULT_CONNECTION_REFUSED, RESULT_UNKNOWN}"
  by (cases ex) simp_all

lemma setup_early_result:
  "fst (check_connection_setup K c opts s w) = Inl (Inr result)
     \<Longrightarrow> result = errors_result RESULT_ERROR"
  by (auto simp: check_connection_setup_def Let_def split_beta
        split: option.splits sum.splits if_splits)

lemma probe_error_codes:
  assumes "fst (check_connection_probe K r c s (ctu, host, st, api) w) = Inr result"
    and "result_errors result = Some code"
  shows "code \<in> {RESULT_WRONG_CREDENTIALS, RESULT_LOGIN_BLOCKED,
                 RESULT_CONNECTION_REFUSED, RESULT_UNKNOWN}"
proof -
  have "\<exists>ex. code = fst (connect_failed s host ex)"
    using assms
    by (auto simp: check_connection_probe_def split_beta errors_result_def
          split: sum.splits)
  then obtain ex where "code = fst (connect_failed s host ex)" ..
  then show ?thesis using connect_failed_codes[of s host ex] by simp
qed

lemma check_connection_codes:
  assumes "fst (async_check_connection K r c opts s w) = Inr result"
    and "result_errors result = Some code"
  shows "code \<in> {RESULT_ERROR, RESULT_WRONG_CREDENTIALS, RESULT_LOGIN_BLOCKED,
                 RESULT_CONNECTION_REFUSED, RESULT_UNKNOWN}"
proof (cases "fst (check_connection_setup K c opts s w)")
  case (Inl out)
  with assms(1) have "fst (check_connection_setup K c opts s w) = Inl (Inr result)"
    by (simp add: async_check_connection_def split_beta)
  from setup_early_result[OF this] assms(2) show ?thesis
    by (simp add: errors_result_def)
next
  case (Inr locals)
  obtain ctu host st api where l: "locals = (ctu, host, st, api)" by (cases locals)
  from assms(1) Inr l
  have "fst (check_connection_probe K r c s (ctu, host, st, api)
               (snd (check_connection_setup K c opts s w))) = Inr result"
    by (simp add: async_check_connection_def split_beta)
  from probe_error_codes[OF this assms(2)] show ?thesis by blast
qed

text \<open>
  Claim C3. A submission of the credentials step with user input \<open>u\<close> whose connection
  check returns the error code \<open>code\<close>: if the code is neither
  \<^verbatim>\<open>RESULT_WRONG_CREDENTIALS\<close> nor \<^verbatim>\<open>RESULT_LOGIN_BLOCKED\<close>, the step goes through the
  entry \<^verbatim>\<open>credentials_error\<close> of the table to \<^verbatim>\<open>async_step_device\<close>, called with the
  errors, which shows the device form carrying the code; otherwise the credentials form
  is shown again, carrying the code.
\<close>

theorem credentials_step_branches:
  assumes "u \<noteq> []"
    and "async_check_connection K r (self_configs h) (Some (self_options h)) True
           (update_in_place (self_options h) u w) = (Inr result, w2)"
    and "result_errors result = Some code"
  shows "(code \<noteq> RESULT_WRONG_CREDENTIALS \<and> code \<noteq> RESULT_LOGIN_BLOCKED \<longrightarrow>
            map_of steps ''credentials_error'' = Some Async_step_device
          \<and> call_step K r Async_step_credentials h w (Some u) None
              = call_step K r Async_step_device h w2 None (Some [(''base'', code)])
          \<and> call_step K r Async_step_credentials h w (Some u) None
              = (Inr (Show_form ''device'' (create_form_device K (deref w2 (self_options h)))
                        (Some [(''base'', code)])), h, w2))
       \<and> (code = RESULT_WRONG_CREDENTIALS \<or> code = RESULT_LOGIN_BLOCKED \<longrightarrow>
            call_step K r Async_step_credentials h w (Some u) None
              = (Inr (Show_form ''credentials'' (create_form_credentials K u)
                        (Some [(''base'', code)])), h, w2))"
proof (intro conjI impI)
  assume "code = RESULT_WRONG_CREDENTIALS \<or> code = RESULT_LOGIN_BLOCKED"
  then show "call_step K r Async_step_credentials h w (Some u) None
              = (Inr (Show_form ''credentials'' (create_form_credentials K u)
                        (Some [(''base'', code)])), h, w2)"
    using assms(1,2,3) by (auto simp: input_dict_def Let_def)
next
  show "map_of steps ''credentials_error'' = Some Async_step_device"
    by (simp add: steps_def)
next
  assume ne: "code \<noteq> RESULT_WRONG_CREDENTIALS \<and> code \<noteq> RESULT_LOGIN_BLOCKED"
  from assms(2) have "fst (async_check_connection K r (self_configs h) (Some (self_options h)) True
           (update_in_place (self_options h) u w)) = Inr result" by simp
  from check_connection_codes[OF this assms(3)] ne
  have "code \<in> {RESULT_ERROR, RESULT_CONNECTION_REFUSED, RESULT_UNKNOWN}" by blast
  then have ce: "check_errors [(''base'', code)]"
    by (auto simp: check_errors_def)
  have sel: "async_select_step K r h w2 (Some ''credentials'') [(''base'', code)]
      = call_step K r Async_step_device h w2 None (Some [(''base'', code)])"
    using ce by (simp add: steps_def del: call_step.simps)
  have cred: "call_step K r Async_step_credentials h w (Some u) None
      = async_select_step K r h w2 (Some ''credentials'') [(''base'', code)]"
    using assms(1,2,3) ne by (simp add: input_dict_def Let_def del: async_select_step.simps)
  show "call_step K r Async_step_credentials h w (Some u) None
              = call_step K r Async_step_device h w2 None (Some [(''base'', code)])"
    using cred sel by simp
  have dev: "call_step K r Async_step_device h w2 None (Some [(''base'', code)])
      = (Inr (Show_form ''device'' (create_form_device K (deref w2 (self_options h)))
                        (Some [(''base'', code)])), h, w2)"
    by (simp add: input_dict_def errors_object_def)
  show "call_step K r Async_step_credentials h w (Some u) None
              = (Inr (Show_form ''device'' (create_form_device K (deref w2 (self_options h)))
                        (Some [(''base'', code)])), h, w2)"
    using cred sel dev by simp
qed

lemma sample_submission:
  "update_in_place (Suc 0) [(CONF_PASSWORD, VStr ''secret'')] sample_world = sample_world"
  by (simp add: update_in_place_def store_def deref_def sample_world_def)

lemma sample_check_refused:
  "fst (async_check_connection sample_constants
          (sample_sdk\<lparr>api_async_connect := Some (AsusRouterConnectionError ''refused'')\<rparr>)
          0 (Some 1) True sample_world)
     = Inr (errors_result RESULT_CONNECTION_REFUSED)"
  by (simp add: async_check_connection_def check_connection_setup_def check_connection_probe_def
         sample_constants_def sample_world_def sample_sdk_def dict_copy_def
         alloc_def update_in_place_def store_def deref_def options_dict_def Let_def ARBridge_def
         get_bridge_def AsusRouterBridgeHTTP_init_def get_api_def dict_in_def emit_def
         async_connect_def reraise_connect_def async_clean_def)

lemma sample_check_wrong_credentials:
  "fst (async_check_connection sample_constants
          (sample_sdk\<lparr>api_async_connect := Some AsusRouterLoginError\<rparr>)
          0 (Some 1) True sample_world)
     = Inr (errors_result RESULT_WRONG_CREDENTIALS)"
  by (simp add: async_check_connection_def check_connection_setup_def check_connection_probe_def
         sample_constants_def sample_world_def sample_sdk_def dict_copy_def
         alloc_def update_in_place_def store_def deref_def options_dict_def Let_def ARBridge_def
         get_bridge_def AsusRouterBridgeHTTP_init_def get_api_def dict_in_def emit_def
         async_connect_def reraise_connect_def async_clean_def)

text \<open>
  A router that refuses the connection leads to the device form, one that rejects the
  credentials back to the credentials form.
\<close>

theorem credentials_step_branches_witness:
  "fst (call_step sample_constants
          (sample_sdk\<lparr>api_async_connect := Some (AsusRouterConnectionError ''refused'')\<rparr>)
          Async_step_credentials \<lparr>self_configs = 0, self_options = 1, unique_id = None\<rparr>
          sample_world (Some [(CONF_PASSWORD, VStr ''secret'')]) None)
     = Inr (Show_form ''device''
              [mk_field Required CONF_USERNAME (VStr ''admin'') T_str,
               mk_field Required CONF_PASSWORD (VStr ''secret'') T_str,
               mk_field Optional CONF_PORT (VInt 80) T_int,
               mk_field Optional CONF_SSL (VBool False) T_bool,
               mk_field Optional CONF_VERIFY_SSL (VBool False) T_bool,
               mk_field Optional CONF_CERT_PATH (VStr []) T_str]
              (Some [(''base'', RESULT_CONNECTION_REFUSED)]))
   \<and> fst (call_step sample_constants
          (sample_sdk\<lparr>api_async_connect := Some AsusRouterLoginError\<rparr>)
          Async_step_credentials \<lparr>self_configs = 0, self_options = 1, unique_id = None\<rparr>
          sample_world (Some [(CONF_PASSWORD, VStr ''secret'')]) None)
     = Inr (Show_form ''credentials''
              [mk_field Required CONF_USERNAME (VStr ''admin'') T_str,
               mk_field Required CONF_PASSWORD (VStr ''secret'') T_str,
               mk_field Optional CONF_SSL (VBool False) T_bool]
              (Some [(''base'', RESULT_WRONG_CREDENTIALS)]))"
proof -
  let ?h = "\<lparr>self_configs = 0, self_options = 1, unique_id = None\<rparr>"
  let ?u = "[(CONF_PASSWORD, VStr ''secret'')]"
  let ?r1 = "sample_sdk\<lparr>api_async_connect := Some (AsusRouterConnectionError ''refused'')\<rparr>"
  let ?r2 = "sample_sdk\<lparr>api_async_connect := Some AsusRouterLoginError\<rparr>"
  let ?c1 = "async_check_connection sample_constants ?r1 (self_configs ?h) (Some (self_options ?h))
               True (update_in_place (self_options ?h) ?u sample_world)"
  let ?c2 = "async_check_connection sample_constants ?r2 (self_configs ?h) (Some (self_options ?h))
               True (update_in_place (self_options ?h) ?u sample_world)"
  have ne: "?u \<noteq> []" by simp
  have f1: "fst ?c1 = Inr (errors_result RESULT_CONNECTION_REFUSED)"
    using sample_check_refused by (simp add: sample_submission)
  have f2: "fst ?c2 = Inr (errors_result RESULT_WRONG_CREDENTIALS)"
    using sample_check_wrong_credentials by (simp add: sample_submission)
  have p1: "?c1 = (Inr (errors_result RESULT_CONNECTION_REFUSED), snd ?c1)"
    using f1 by (simp only: prod_eq_iff fst_conv snd_conv simp_thms)
  have p2: "?c2 = (Inr (errors_result RESULT_WRONG_CREDENTIALS), snd ?c2)"
    using f2 by (simp only: prod_eq_iff fst_conv snd_conv simp_thms)
  have e1: "result_errors (errors_result RESULT_CONNECTION_REFUSED) = Some RESULT_CONNECTION_REFUSED"
    and e2: "result_errors (errors_result RESULT_WRONG_CREDENTIALS) = Some RESULT_WRONG_CREDENTIALS"
    by (simp_all add: errors_result_def)
  have "frame (length (heap sample_world)) sample_world
          (snd (async_check_connection sample_constants ?r1 0 (Some 1) True sample_world))"
    by (rule frame_check_connection) simp
  then have fr: "frame (length (heap sample_world)) sample_world (snd ?c1)"
    by (simp add: sample_submission)
  have opt: "deref (snd ?c1) (self_options ?h) = deref sample_world 1"
    using frame_deref[OF fr, of 1] by (simp add: sample_world_def)
  have form1: "create_form_device sample_constants (deref sample_world 1)
     = [mk_field Required CONF_USERNAME (VStr ''admin'') T_str,
        mk_field Required CONF_PASSWORD (VStr ''secret'') T_str,
        mk_field Optional CONF_PORT (VInt 80) T_int,
        mk_field Optional CONF_SSL (VBool False) T_bool,
        mk_field Optional CONF_VERIFY_SSL (VBool False) T_bool,
        mk_field Optional CONF_CERT_PATH (VStr []) T_str]"
    by (simp add: create_form_device_def dict_get_def sample_world_def deref_def)
  have form2: "create_form_credentials sample_constants ?u
     = [mk_field Required CONF_USERNAME (VStr ''admin'') T_str,
        mk_field Required CONF_PASSWORD (VStr ''secret'') T_str,
        mk_field Optional CONF_SSL (VBool False) T_bool]"
    by (simp add: create_form_credentials_def dict_get_def sample_constants_def)
  note t1 = credentials_step_branches[OF ne p1 e1]
  note t2 = credentials_step_branches[OF ne p2 e2]
  have n1: "RESULT_CONNECTION_REFUSED \<noteq> RESULT_WRONG_CREDENTIALS
      \<and> RESULT_CONNECTION_REFUSED \<noteq> RESULT_LOGIN_BLOCKED" by simp
  have n2: "RESULT_WRONG_CREDENTIALS = RESULT_WRONG_CREDENTIALS
      \<or> RESULT_WRONG_CREDENTIALS = RESULT_LOGIN_BLOCKED" by simp
  note t1a = t1[THEN conjunct1, THEN mp, OF n1, THEN conjunct2, THEN conjunct2]
  note t2a = t2[THEN conjunct2, THEN mp, OF n2]
  have a: "fst (call_step sample_constants ?r1 Async_step_credentials ?h sample_world (Some ?u) None)
     = Inr (Show_form ''device'' (create_form_device sample_constants (deref (snd ?c1) (self_options ?h)))
              (Some [(''base'', RESULT_CONNECTION_REFUSED)]))"
    by (simp only: t1a fst_conv)
  have b: "fst (call_step sample_constants ?r2 Async_step_credentials ?h sample_world (Some ?u) None)
     = Inr (Show_form ''credentials'' (create_form_credentials sample_constants ?u)
              (Some [(''base'', RESULT_WRONG_CREDENTIALS)]))"
    by (simp only: t2a fst_conv)
  show ?thesis
    using a b by (simp only: opt form1 form2 simp_thms)
qed

end
